theory Spec2Isabelle
  imports Main "HOL-Library.Sublist"
begin

section \<open>String helpers of the Go standard library used by the handler\<close>

text \<open>
  Go strings are byte sequences; they are modelled as \<open>string\<close> (a list of
  \<open>char\<close>). The handler calls \<open>strings.HasSuffix\<close>, \<open>strings.Contains\<close>,
  \<open>strings.TrimSuffix\<close> and \<open>strings.TrimRight\<close> (the latter only with the
  one-byte cutset \<open>/\<close>, for which trimming code points is trimming bytes).
\<close>

definition HasSuffix :: "string \<Rightarrow> string \<Rightarrow> bool" where
  "HasSuffix s suf = prefix (rev suf) (rev s)"

fun Contains :: "string \<Rightarrow> string \<Rightarrow> bool" where
  "Contains [] substr = (substr = [])"
| "Contains (c # s) substr = (if prefix substr (c # s) then True else Contains s substr)"

definition TrimSuffix :: "string \<Rightarrow> string \<Rightarrow> string" where
  "TrimSuffix s suf = (if HasSuffix s suf then take (length s - length suf) s else s)"

definition TrimRight :: "string \<Rightarrow> string \<Rightarrow> string" where
  "TrimRight s cutset = rev (dropWhile (\<lambda>c. c \<in> set cutset) (rev s))"

section \<open>Data model\<close>

text \<open>HTTP status codes of \<open>net/http\<close> that the handler names.\<close>

abbreviation StatusOK :: int where "StatusOK \<equiv> 200"
abbreviation StatusMovedPermanently :: int where "StatusMovedPermanently \<equiv> 301"
abbreviation StatusNotModified :: int where "StatusNotModified \<equiv> 304"
abbreviation StatusNotFound :: int where "StatusNotFound \<equiv> 404"
abbreviation StatusMethodNotAllowed :: int where "StatusMethodNotAllowed \<equiv> 405"
abbreviation StatusPreconditionFailed :: int where "StatusPreconditionFailed \<equiv> 412"
abbreviation StatusInternalServerError :: int where "StatusInternalServerError \<equiv> 500"

text \<open>
  \<open>http.Header\<close> is a Go map from header names to lists of values. A key that is
  absent reads as the nil slice, which is the empty list here. \<open>Header.Get\<close> returns the
  first value stored under the (canonical) key, or the empty string.
\<close>

type_synonym header = "string \<rightharpoonup> string list"

definition Header_index :: "header \<Rightarrow> string \<Rightarrow> string list" where
  "Header_index h k = (case h k of None \<Rightarrow> [] | Some vs \<Rightarrow> vs)"

definition Header_Get :: "header \<Rightarrow> string \<Rightarrow> string" where
  "Header_Get h k = (case Header_index h k of [] \<Rightarrow> [] | v # _ \<Rightarrow> v)"

definition Header_Set :: "header \<Rightarrow> string \<Rightarrow> string \<Rightarrow> header" where
  "Header_Set h k v = h(k \<mapsto> [v])"

record URL =
  Hostname :: string
  Path :: string
  EscapedPath :: string
  RawQuery :: string

record Request =
  Method :: string
  URL :: URL
  ReqHeader :: header

record Response =
  StatusCode :: int
  ResStatus :: string
  Header :: header
  Body :: string

record WebsiteConfiguration =
  MainPageSuffix :: string
  NotFoundPage :: string

text \<open>
  The type \<open>FirebaseConfiguration\<close>, its methods \<open>processRedirects\<close>,
  \<open>processRewrites\<close> and \<open>processHeaders\<close>, and the type \<open>HttpResult\<close> are
  declared outside the two source files. The configuration is taken as a parameter: a
  record of the two flags the handler reads and of the three operations as functions
  (\<open>processHeaders\<close> returns the header map it has updated). \<open>TrailingSlash\<close> is a
  \<open>*bool\<close>: \<open>None\<close> is the nil pointer. \<open>HttpResult\<close> has the three fields the
  handler fills; the zero value is \<open>emptyResult\<close>.
\<close>

record FirebaseConfiguration =
  processRedirects :: "string \<Rightarrow> int \<times> string"
  processRewrites :: "string \<Rightarrow> string"
  processHeaders :: "string \<Rightarrow> header \<Rightarrow> header"
  CleanUrls :: bool
  TrailingSlash :: "bool option"

record HttpResult =
  Status :: int
  Location :: string
  Message :: string

definition emptyResult :: HttpResult where
  "emptyResult = \<lparr>Status = 0, Location = [], Message = []\<rparr>"

text \<open>
  The origin is reached through the \<open>http.Client\<close> held in \<open>ctx.gcs\<close>. A call is
  a method with the URL it is sent to. The client is modelled by what the origin
  answers (\<open>transport\<close>: given the calls made so far and the present call, a response,
  or \<open>None\<close> for a transport error, the \<open>err != nil\<close> of the source) and by the
  \<open>calls\<close> made through it so far, oldest first.
\<close>

datatype call = HEAD string | GET string

record Client =
  transport :: "call list \<Rightarrow> call \<Rightarrow> Response option"
  calls :: "call list"

definition Client_Head :: "Client \<Rightarrow> string \<Rightarrow> Response option \<times> Client" where
  "Client_Head c url = (transport c (calls c) (HEAD url), c\<lparr>calls := calls c @ [HEAD url]\<rparr>)"

definition Client_Get :: "Client \<Rightarrow> string \<Rightarrow> Response option \<times> Client" where
  "Client_Get c url = (transport c (calls c) (GET url), c\<lparr>calls := calls c @ [GET url]\<rparr>)"

text \<open>
  The \<open>http.ResponseWriter\<close>: the header map, the status passed to \<open>WriteHeader\<close>
  (if it was called) and the bytes copied to the body. The status that \<open>net/http\<close>
  sends by itself at the first write of a body, when \<open>WriteHeader\<close> was not called,
  is not recorded.
\<close>

record ResponseWriter =
  wHeader :: header
  wStatus :: "int option"
  wBody :: string

definition WriteHeader :: "ResponseWriter \<Rightarrow> int \<Rightarrow> ResponseWriter" where
  "WriteHeader rw code = rw\<lparr>wStatus := Some code\<rparr>"

definition io_Copy :: "ResponseWriter \<Rightarrow> string \<Rightarrow> ResponseWriter" where
  "io_Copy rw body = rw\<lparr>wBody := wBody rw @ body\<rparr>"

record HandlerContext =
  w :: ResponseWriter
  r :: Request
  gcs :: Client
  bucket :: string
  object :: string
  website :: WebsiteConfiguration
  firebase :: FirebaseConfiguration

text \<open>\<open>&http.Response{StatusCode: code}\<close>: every other field has its zero value.\<close>

definition statusResponse :: "int \<Rightarrow> Response" where
  "statusResponse code = \<lparr>StatusCode = code, ResStatus = [], Header = Map.empty, Body = []\<rparr>"

definition storage :: string where
  "storage = ''https://storage.googleapis.com/''"

section \<open>The object resolver\<close>

text \<open>
  \<open>getRewriteMetadata\<close> returns a response pointer, \<open>None\<close> for \<open>nil\<close>, and the
  context, whose \<open>object\<close> it sets when the probe is accepted.
\<close>

definition getRewriteMetadata ::
  "HandlerContext \<Rightarrow> string \<Rightarrow> Response option \<times> HandlerContext" where
  "getRewriteMetadata ctx rewrite =
     (if length rewrite > 1 \<and> hd rewrite = CHR ''/'' \<and> rewrite \<noteq> object ctx then
        (case Client_Head (gcs ctx) (storage @ bucket ctx @ rewrite) of
           (None, c) \<Rightarrow> (Some (statusResponse StatusInternalServerError), ctx\<lparr>gcs := c\<rparr>)
         | (Some res, c) \<Rightarrow>
             if StatusCode res \<noteq> StatusNotFound
             then (Some res, ctx\<lparr>gcs := c, object := rewrite\<rparr>)
             else (None, ctx\<lparr>gcs := c\<rparr>))
      else (None, ctx))"

text \<open>
  The start of \<open>getMetadata\<close> (lines 154 to 168 of the handler's file): the working
  object after the initial collapse and, on the probing path, the trailing-slash strip.
\<close>

definition collapseObject :: "HandlerContext \<Rightarrow> HandlerContext" where
  "collapseObject ctx =
     (if length (object ctx) \<le> 1
      then ctx\<lparr>object := ''/'' @ MainPageSuffix (website ctx)\<rparr> else ctx)"

definition shortCircuit :: "HandlerContext \<Rightarrow> bool" where
  "shortCircuit ctx \<longleftrightarrow>
     length (object ctx) \<le> 1 \<or> object ctx = ''/'' @ NotFoundPage (website ctx)"

definition stripObject :: "HandlerContext \<Rightarrow> HandlerContext" where
  "stripObject ctx =
     (if TrailingSlash (firebase ctx) \<noteq> None
      then ctx\<lparr>object := TrimRight (object ctx) ''/''\<rparr> else ctx)"

text \<open>
  The fallback chain of \<open>getMetadata\<close> (lines 177 to 187), entered after a primary
  probe that answered 404 or a directory placeholder; \<open>res\<close> is the primary response,
  returned at line 190 when no candidate is accepted.
\<close>

definition fallbackChain :: "HandlerContext \<Rightarrow> Response \<Rightarrow> Response \<times> HandlerContext" where
  "fallbackChain ctx res =
     (case getRewriteMetadata ctx
             (TrimRight (object ctx) ''/'' @ ''/'' @ MainPageSuffix (website ctx)) of
        (Some r1, ctx1) \<Rightarrow> (r1, ctx1)
      | (None, ctx1) \<Rightarrow>
          (case (if CleanUrls (firebase ctx1)
                 then getRewriteMetadata ctx1 (TrimRight (object ctx1) ''/'' @ ''.html'')
                 else (None, ctx1)) of
             (Some r2, ctx2) \<Rightarrow> (r2, ctx2)
           | (None, ctx2) \<Rightarrow>
               (case getRewriteMetadata ctx2
                       (processRewrites (firebase ctx2) (Path (URL (r ctx2)))) of
                  (Some r3, ctx3) \<Rightarrow> (r3, ctx3)
                | (None, ctx3) \<Rightarrow> (res, ctx3))))"

text \<open>
  \<open>res.Header.Get("x-goog-stored-content-length")\<close> reads the canonical key
  \<open>X-Goog-Stored-Content-Length\<close>, under which the client stores the header.
\<close>

definition getMetadata :: "HandlerContext \<Rightarrow> Response \<times> HandlerContext" where
  "getMetadata ctx0 =
     (let ctx = collapseObject ctx0 in
      if shortCircuit ctx then
        (case getRewriteMetadata ctx (processRewrites (firebase ctx) (Path (URL (r ctx)))) of
           (Some res, ctx') \<Rightarrow> (res, ctx')
         | (None, ctx') \<Rightarrow> (statusResponse StatusNotFound, ctx'))
      else
        (let ctx = stripObject ctx in
         case Client_Head (gcs ctx) (storage @ bucket ctx @ object ctx) of
           (None, c) \<Rightarrow> (statusResponse StatusInternalServerError, ctx\<lparr>gcs := c\<rparr>)
         | (Some res, c) \<Rightarrow>
             if StatusCode res = StatusNotFound
                \<or> HasSuffix (object ctx) ''/''
                  \<and> Header_Get (Header res) ''X-Goog-Stored-Content-Length'' = ''0''
             then fallbackChain (ctx\<lparr>gcs := c\<rparr>) res
             else (res, ctx\<lparr>gcs := c\<rparr>)))"

section \<open>The conditional evaluator\<close>

text \<open>
  \<open>http.ParseTime\<close> belongs to the standard library; the evaluator takes it as the
  parameter \<open>ParseTime\<close>, which returns \<open>None\<close> where the library returns an error and
  the parsed instant (seconds, an \<open>int\<close>) otherwise. \<open>modified.After(since)\<close> is
  \<open>since < modified\<close>.

  The two loops over the matchers set \<open>match\<close> and leave at the first hit.
\<close>

fun ifMatchLoop :: "string \<Rightarrow> bool \<Rightarrow> string list \<Rightarrow> bool" where
  "ifMatchLoop etag mutable [] = False"
| "ifMatchLoop etag mutable (matcher # matchers) =
     (if matcher = ''*'' \<or> Contains matcher etag \<and> \<not> mutable then True
      else ifMatchLoop etag mutable matchers)"

fun ifNoneMatchLoop :: "string \<Rightarrow> string list \<Rightarrow> bool" where
  "ifNoneMatchLoop etag [] = False"
| "ifNoneMatchLoop etag (matcher # matchers) =
     (if matcher = ''*'' \<or> Contains matcher etag then True
      else ifNoneMatchLoop etag matchers)"

text \<open>The second half of \<open>checkConditions\<close>: \<open>If-None-Match\<close>, else \<open>If-Modified-Since\<close>.\<close>

definition checkNoneMatch :: "(string \<Rightarrow> int option) \<Rightarrow> Request \<Rightarrow> string \<Rightarrow> int \<Rightarrow> int" where
  "checkNoneMatch ParseTime req etag modified =
     (case ReqHeader req ''If-None-Match'' of
        Some matchers \<Rightarrow>
          if ifNoneMatchLoop etag matchers then StatusNotModified else 0
      | None \<Rightarrow>
          (case ParseTime (Header_Get (ReqHeader req) ''If-Modified-Since'') of
             Some since \<Rightarrow> if \<not> since < modified then StatusNotModified else 0
           | None \<Rightarrow> 0))"

definition checkConditions ::
  "(string \<Rightarrow> int option) \<Rightarrow> Request \<Rightarrow> string \<Rightarrow> string \<Rightarrow> bool \<Rightarrow> int" where
  "checkConditions ParseTime req etag lastModified mutable =
     (case ParseTime lastModified of
        None \<Rightarrow> StatusInternalServerError
      | Some modified \<Rightarrow>
          if etag = [] \<or> hd etag \<noteq> CHR 0x22 then StatusInternalServerError
          else
            (case ReqHeader req ''If-Match'' of
               Some matchers \<Rightarrow>
                 if \<not> ifMatchLoop etag mutable matchers then StatusPreconditionFailed
                 else checkNoneMatch ParseTime req etag modified
             | None \<Rightarrow>
                 (case ParseTime (Header_Get (ReqHeader req) ''If-Unmodified-Since'') of
                    Some since \<Rightarrow>
                      if since < modified \<or> mutable then StatusPreconditionFailed
                      else checkNoneMatch ParseTime req etag modified
                  | None \<Rightarrow> checkNoneMatch ParseTime req etag modified)))"

section \<open>The query string\<close>

text \<open>
  \<open>getQuery\<close> calls \<open>URL.Query\<close> and \<open>Values.Encode\<close> of the standard package
  \<open>net/url\<close>. They are modelled after the library: \<open>Query\<close> parses \<open>RawQuery\<close>
  with \<open>ParseQuery\<close> and drops the error; \<open>ParseQuery\<close> cuts the string at every
  \<open>&\<close>, skips a piece that is empty, contains \<open>;\<close> or does not unescape, cuts the
  piece at its first \<open>=\<close> and appends the unescaped value to the values of the
  unescaped key. \<open>Encode\<close> writes the keys in sorted order, each value as
  \<open>key=value\<close>, escaped, joined by \<open>&\<close>. The map \<open>url.Values\<close> is kept as a list of
  keys with their values, sorted by key (bytewise), which is the order \<open>Encode\<close>
  reads it in; \<open>len\<close> of the map is the length of the list.
\<close>

definition ishex :: "char \<Rightarrow> bool" where
  "ishex c \<longleftrightarrow>
     (let n = (of_char c :: nat) in
      48 \<le> n \<and> n \<le> 57 \<or> 97 \<le> n \<and> n \<le> 102 \<or> 65 \<le> n \<and> n \<le> 70)"

definition unhex :: "char \<Rightarrow> nat" where
  "unhex c =
     (let n = (of_char c :: nat) in
      if 48 \<le> n \<and> n \<le> 57 then n - 48
      else if 97 \<le> n \<and> n \<le> 102 then n - 97 + 10
      else if 65 \<le> n \<and> n \<le> 70 then n - 65 + 10
      else 0)"

text \<open>\<open>shouldEscape\<close> in the mode of a query component.\<close>

definition shouldEscape :: "char \<Rightarrow> bool" where
  "shouldEscape c \<longleftrightarrow>
     (let n = (of_char c :: nat) in
      \<not> (97 \<le> n \<and> n \<le> 122 \<or> 65 \<le> n \<and> n \<le> 90 \<or> 48 \<le> n \<and> n \<le> 57
         \<or> c \<in> set ''-_.~''))"

fun QueryEscape :: "string \<Rightarrow> string" where
  "QueryEscape [] = []"
| "QueryEscape (c # s) =
     (if shouldEscape c then
        (if c = CHR '' '' then CHR ''+'' # QueryEscape s
         else CHR ''%'' # (''0123456789ABCDEF'' ! ((of_char c :: nat) div 16))
                # (''0123456789ABCDEF'' ! ((of_char c :: nat) mod 16)) # QueryEscape s)
      else c # QueryEscape s)"

fun QueryUnescape :: "string \<Rightarrow> string option" where
  "QueryUnescape [] = Some []"
| "QueryUnescape (c # s) =
     (if c = CHR ''%'' then
        (case s of
           h1 # h2 # rest \<Rightarrow>
             if ishex h1 \<and> ishex h2
             then map_option ((#) (char_of (unhex h1 * 16 + unhex h2))) (QueryUnescape rest)
             else None
         | _ \<Rightarrow> None)
      else if c = CHR ''+'' then map_option ((#) CHR '' '') (QueryUnescape s)
      else map_option ((#) c) (QueryUnescape s))"

type_synonym Values = "(string \<times> string list) list"

fun string_less :: "string \<Rightarrow> string \<Rightarrow> bool" where
  "string_less [] [] = False"
| "string_less [] (b # y) = True"
| "string_less (a # x) [] = False"
| "string_less (a # x) (b # y) =
     ((of_char a :: nat) < of_char b \<or> a = b \<and> string_less x y)"

text \<open>\<open>m[key] = append(m[key], value)\<close>\<close>

fun appendValue :: "Values \<Rightarrow> string \<Rightarrow> string \<Rightarrow> Values" where
  "appendValue [] key v = [(key, [v])]"
| "appendValue ((k, vs) # m) key v =
     (if key = k then (k, vs @ [v]) # m
      else if string_less key k then (key, [v]) # (k, vs) # m
      else (k, vs) # appendValue m key v)"

text \<open>\<open>strings.Cut\<close> at the first occurrence of a one-byte separator.\<close>

definition Cut :: "string \<Rightarrow> char \<Rightarrow> string \<times> string" where
  "Cut s sep = (takeWhile (\<lambda>c. c \<noteq> sep) s, drop 1 (dropWhile (\<lambda>c. c \<noteq> sep) s))"

function parseQuery :: "Values \<Rightarrow> string \<Rightarrow> Values" where
  "parseQuery m query =
     (if query = [] then m
      else
        (case Cut query CHR ''&'' of
           (key, query') \<Rightarrow>
             if CHR '';'' \<in> set key then parseQuery m query'
             else if key = [] then parseQuery m query'
             else
               (case Cut key CHR ''='' of
                  (key, v) \<Rightarrow>
                    (case QueryUnescape key of
                       None \<Rightarrow> parseQuery m query'
                     | Some key \<Rightarrow>
                         (case QueryUnescape v of
                            None \<Rightarrow> parseQuery m query'
                          | Some v \<Rightarrow> parseQuery (appendValue m key v) query')))))"
  by pat_completeness auto
termination
proof -
  have shorter: "length query' < length query"
    if "query \<noteq> []" and "(key, query') = Cut query CHR ''&''"
    for query key query' :: string
  proof -
    have "query' = drop 1 (dropWhile (\<lambda>c. c \<noteq> CHR ''&'') query)"
      using that(2) by (simp add: Cut_def)
    moreover have "length (dropWhile (\<lambda>c. c \<noteq> CHR ''&'') query) \<le> length query"
      by (rule length_dropWhile_le)
    ultimately show ?thesis
      using that(1) by (cases query) auto
  qed
  show ?thesis
    by (relation "measure (\<lambda>(m, query). length query)") (auto dest: shorter)
qed

definition Query :: "URL \<Rightarrow> Values" where
  "Query u = parseQuery [] (RawQuery u)"

fun encodeKey :: "string \<Rightarrow> string list \<Rightarrow> string list" where
  "encodeKey keyEscaped [] = []"
| "encodeKey keyEscaped (v # vs) =
     (keyEscaped @ ''='' @ QueryEscape v) # encodeKey keyEscaped vs"

fun joinAmp :: "string list \<Rightarrow> string" where
  "joinAmp [] = []"
| "joinAmp [p] = p"
| "joinAmp (p # q # ps) = p @ ''&'' @ joinAmp (q # ps)"

definition Encode :: "Values \<Rightarrow> string" where
  "Encode v = joinAmp (concat (map (\<lambda>(k, vs). encodeKey (QueryEscape k) vs) v))"

section \<open>The request handler\<close>

text \<open>
  What the handler takes from its environment: the date parser, the present time already
  formatted by \<open>time.Now().UTC().Format(http.TimeFormat)\<close>, the blob key service
  (\<open>None\<close> for an error), the XML decoder applied to the body of the
  \<open>websiteConfig\<close> answer (\<open>None\<close> for an error), and the origin behind the client
  that \<open>makeContext\<close> builds.
\<close>

record Runtime =
  parseTime :: "string \<Rightarrow> int option"
  timeNow :: string
  blobKeyForFile :: "string \<Rightarrow> string option"
  xmlDecode :: "string \<Rightarrow> WebsiteConfiguration option"
  roundTrip :: "call list \<Rightarrow> call \<Rightarrow> Response option"

text \<open>
  The package variables \<open>websites\<close> and \<open>firebase\<close>. \<open>websites\<close> is a partial map,
  since \<open>initWebsite\<close> asks whether the bucket is present and adds it; it is passed in
  and returned. \<open>firebase\<close> is only read by index, so it is the function that gives
  each bucket its configuration (the zero value for a bucket without one).
\<close>

type_synonym websiteCache = "string \<rightharpoonup> WebsiteConfiguration"

definition zeroWebsite :: WebsiteConfiguration where
  "zeroWebsite = \<lparr>MainPageSuffix = [], NotFoundPage = []\<rparr>"

definition makeContext ::
  "Runtime \<Rightarrow> websiteCache \<Rightarrow> (string \<Rightarrow> FirebaseConfiguration) \<Rightarrow> ResponseWriter \<Rightarrow> Request
     \<Rightarrow> HandlerContext" where
  "makeContext rt websites firebases rw req =
     (let bkt = Hostname (URL req);
          obj = EscapedPath (URL req);
          obj = (if obj = ''/'' then ''/index.html'' else obj)
      in \<lparr>w = rw, r = req,
          gcs = \<lparr>transport = roundTrip rt, calls = []\<rparr>,
          bucket = bkt, object = obj,
          website = (case websites bkt of None \<Rightarrow> zeroWebsite | Some c \<Rightarrow> c),
          firebase = firebases bkt\<rparr>)"

text \<open>
  \<open>initWebsite\<close> returns an error or \<open>nil\<close> (\<open>None\<close>). The decoder writes into
  \<open>ctx.website\<close>; when it fails the handler answers 500 and drops the context, so
  the model leaves \<open>website\<close> as it was in that case.
\<close>

datatype error = ErrUnspecified | ErrTransport | ErrDecode

definition initWebsite ::
  "Runtime \<Rightarrow> websiteCache \<Rightarrow> HandlerContext \<Rightarrow> error option \<times> HandlerContext \<times> websiteCache" where
  "initWebsite rt websites ctx =
     (case websites (bucket ctx) of
        Some c \<Rightarrow> (None, ctx, websites)
      | None \<Rightarrow>
          (case Client_Get (gcs ctx) (storage @ bucket ctx @ ''?websiteConfig'') of
             (None, c) \<Rightarrow> (Some ErrTransport, ctx\<lparr>gcs := c\<rparr>, websites)
           | (Some res, c) \<Rightarrow>
               if StatusCode res \<noteq> StatusOK
               then (Some ErrUnspecified, ctx\<lparr>gcs := c\<rparr>, websites)
               else
                 (case xmlDecode rt (Body res) of
                    None \<Rightarrow> (Some ErrDecode, ctx\<lparr>gcs := c\<rparr>, websites)
                  | Some cfg \<Rightarrow>
                      (None, ctx\<lparr>gcs := c, website := cfg\<rparr>,
                       websites(bucket ctx \<mapsto> cfg)))))"

definition getRedirect :: "HandlerContext \<Rightarrow> int \<times> string" where
  "getRedirect ctx = processRedirects (firebase ctx) (Path (URL (r ctx)))"

text \<open>
  \<open>getCleanURL\<close> computes the canonical path (lines 213 to 225) and returns it when
  it differs from the request path, the empty string otherwise.
\<close>

definition canonicalPath :: "HandlerContext \<Rightarrow> string" where
  "canonicalPath ctx =
     (let path = Path (URL (r ctx));
          path = (if CleanUrls (firebase ctx)
                  then TrimSuffix (TrimSuffix path (MainPageSuffix (website ctx))) ''.html''
                  else path)
      in case TrailingSlash (firebase ctx) of
           None \<Rightarrow> path
         | Some slash \<Rightarrow>
             (let path = TrimRight path ''/'' in if slash then path @ ''/'' else path))"

definition getCleanURL :: "HandlerContext \<Rightarrow> string" where
  "getCleanURL ctx =
     (let path = canonicalPath ctx in
      if path \<noteq> Path (URL (r ctx)) then path else [])"

definition getQuery :: "HandlerContext \<Rightarrow> string" where
  "getQuery ctx =
     (let query = Query (URL (r ctx)) in
      if length query = 0 then [] else ''?'' @ Encode query)"

text \<open>
  \<open>Header.Set\<close> stores under the canonical form of the key, so
  \<open>X-XSS-Protection\<close>, \<open>X-AppEngine-BlobKey\<close> and \<open>X-AppEngine-BlobRange\<close> are
  written in their canonical spelling.
\<close>

definition setHeaders :: "header \<Rightarrow> header" where
  "setHeaders h =
     (let h = Header_Set h ''Referrer-Policy'' ''strict-origin-when-cross-origin'';
          h = Header_Set h ''Strict-Transport-Security'' ''max-age=86400'';
          h = Header_Set h ''X-Content-Type-Options'' ''nosniff'';
          h = Header_Set h ''X-Download-Options'' ''noopen'';
          h = Header_Set h ''X-Frame-Options'' ''SAMEORIGIN'';
          h = Header_Set h ''X-Xss-Protection'' ''1; mode=block''
      in h)"

text \<open>\<open>dst[key] = src[key]\<close> on two header maps.\<close>

definition assignHeader :: "header \<Rightarrow> header \<Rightarrow> string \<Rightarrow> header" where
  "assignHeader dst src key = dst(key \<mapsto> Header_index src key)"

definition withHeader :: "HandlerContext \<Rightarrow> header \<Rightarrow> HandlerContext" where
  "withHeader ctx h = ctx\<lparr>w := (w ctx)\<lparr>wHeader := h\<rparr>\<rparr>"

definition ctx_setHeaders :: "HandlerContext \<Rightarrow> HandlerContext" where
  "ctx_setHeaders ctx =
     withHeader ctx
       (processHeaders (firebase ctx) (Path (URL (r ctx))) (setHeaders (wHeader (w ctx))))"

definition sendBlob ::
  "Runtime \<Rightarrow> HandlerContext \<Rightarrow> string \<Rightarrow> string \<Rightarrow> bool \<Rightarrow> HttpResult \<times> HandlerContext" where
  "sendBlob rt ctx etag modified mutable =
     (case blobKeyForFile rt (''/gs/'' @ bucket ctx @ object ctx) of
        None \<Rightarrow> (emptyResult\<lparr>Status := StatusInternalServerError\<rparr>, ctx)
      | Some key \<Rightarrow>
          (let hdr = Header_Get (ReqHeader (r ctx)) ''Range'';
               ctx = (if length hdr > 0 then
                        (let condition = Header_Get (ReqHeader (r ctx)) ''If-Range'';
                             hdr = (if length condition \<noteq> 0 \<and> condition \<noteq> etag
                                       \<and> condition \<noteq> modified then [] else hdr);
                             hdr = (if mutable then [] else hdr)
                         in withHeader ctx
                              (Header_Set (wHeader (w ctx)) ''X-Appengine-Blobrange'' hdr))
                      else ctx)
           in (emptyResult,
               withHeader ctx (Header_Set (wHeader (w ctx)) ''X-Appengine-Blobkey'' key))))"

definition sendBlobBody :: "HandlerContext \<Rightarrow> HttpResult \<times> HandlerContext" where
  "sendBlobBody ctx =
     (case Client_Get (gcs ctx) (storage @ bucket ctx @ object ctx) of
        (None, c) \<Rightarrow> (emptyResult\<lparr>Status := StatusInternalServerError\<rparr>, ctx\<lparr>gcs := c\<rparr>)
      | (Some res, c) \<Rightarrow>
          if StatusCode res \<noteq> StatusOK
          then (emptyResult\<lparr>Status := StatusInternalServerError\<rparr>, ctx\<lparr>gcs := c\<rparr>)
          else (emptyResult, ctx\<lparr>gcs := c, w := io_Copy (w ctx) (Body res)\<rparr>))"

definition sendNotFound :: "HandlerContext \<Rightarrow> HttpResult \<times> HandlerContext" where
  "sendNotFound ctx =
     (let notFoundPage = ''/'' @ NotFoundPage (website ctx) in
      if length notFoundPage \<le> 1 then (emptyResult\<lparr>Status := StatusNotFound\<rparr>, ctx)
      else
        (case Client_Get (gcs ctx) (storage @ bucket ctx @ notFoundPage) of
           (None, c) \<Rightarrow> (emptyResult\<lparr>Status := StatusInternalServerError\<rparr>, ctx\<lparr>gcs := c\<rparr>)
         | (Some res, c) \<Rightarrow>
             if StatusCode res \<noteq> StatusOK
             then (emptyResult\<lparr>Status := StatusInternalServerError\<rparr>, ctx\<lparr>gcs := c\<rparr>)
             else
               (let h = wHeader (w ctx);
                    h = assignHeader h (Header res) ''Content-Type'';
                    h = assignHeader h (Header res) ''Content-Language'';
                    h = assignHeader h (Header res) ''Content-Disposition'';
                    h = setHeaders h;
                    h = processHeaders (firebase ctx) notFoundPage h;
                    rw = (w ctx)\<lparr>wHeader := h\<rparr>;
                    rw = WriteHeader rw StatusNotFound;
                    rw = io_Copy rw (Body res)
                in (emptyResult, ctx\<lparr>gcs := c, w := rw\<rparr>))))"

definition checkMethod :: "ResponseWriter \<Rightarrow> Request \<Rightarrow> int \<times> ResponseWriter" where
  "checkMethod rw req =
     (if Method req \<noteq> ''GET'' \<and> Method req \<noteq> ''HEAD''
      then (StatusMethodNotAllowed, rw\<lparr>wHeader := Header_Set (wHeader rw) ''Allow'' ''GET, HEAD''\<rparr>)
      else (0, rw))"

text \<open>
  What a run of the handler leaves: the \<open>HttpResult\<close> it returns, the response writer,
  the \<open>websites\<close> map, and the request context as it is at the return (\<open>final\<close>,
  \<open>None\<close> when the method check returned before the context was made). The
  writer \<open>w\<close> of the handler and \<open>ctx.w\<close> are one object, kept in the context.
\<close>

record Outcome =
  result :: HttpResult
  writer :: ResponseWriter
  cache :: websiteCache
  final :: "HandlerContext option"

definition finish :: "HttpResult \<Rightarrow> HandlerContext \<Rightarrow> websiteCache \<Rightarrow> Outcome" where
  "finish res ctx websites =
     \<lparr>result = res, writer = w ctx, cache = websites, final = Some ctx\<rparr>"

text \<open>The origin calls made during a run, and the working object it ended with.\<close>

definition originCalls :: "Outcome \<Rightarrow> call list" where
  "originCalls out = (case final out of None \<Rightarrow> [] | Some ctx \<Rightarrow> calls (gcs ctx))"

definition workingObject :: "Outcome \<Rightarrow> string option" where
  "workingObject out = map_option object (final out)"

text \<open>Lines 75 to 96 of the handler: the origin answered 200 for the working object.\<close>

definition serveObject :: "Runtime \<Rightarrow> HandlerContext \<Rightarrow> Response \<Rightarrow> HttpResult \<times> HandlerContext" where
  "serveObject rt ctx res =
     (let etag = Header_Get (Header res) ''Etag'';
          lastModified = Header_Get (Header res) ''Last-Modified'';
          code = checkConditions (parseTime rt) (r ctx) etag lastModified True;
          ctx = (if code = StatusNotModified
                 then withHeader ctx (assignHeader (wHeader (w ctx)) (Header res) ''Cache-Control'')
                 else ctx)
      in if code \<noteq> 0 then (emptyResult\<lparr>Status := code\<rparr>, ctx)
         else
           (let h = wHeader (w ctx);
                h = assignHeader h (Header res) ''Cache-Control'';
                h = assignHeader h (Header res) ''Content-Type'';
                h = assignHeader h (Header res) ''Content-Language'';
                h = assignHeader h (Header res) ''Content-Disposition'';
                h = Header_Set h ''Last-Modified'' (timeNow rt);
                ctx = ctx_setHeaders (withHeader ctx h)
            in if Header_Get (Header res) ''X-Goog-Stored-Content-Encoding'' = ''identity''
               then sendBlob rt ctx etag lastModified True
               else sendBlobBody ctx))"

definition StaticWebsiteHandler ::
  "Runtime \<Rightarrow> websiteCache \<Rightarrow> (string \<Rightarrow> FirebaseConfiguration) \<Rightarrow> ResponseWriter \<Rightarrow> Request
     \<Rightarrow> Outcome" where
  "StaticWebsiteHandler rt websites firebases rw req =
     (case checkMethod rw req of
        (code, rw) \<Rightarrow>
          if code \<noteq> 0
          then \<lparr>result = emptyResult\<lparr>Status := code\<rparr>, writer = rw, cache = websites,
                final = None\<rparr>
          else
            (let ctx = makeContext rt websites firebases rw req in
             case getRedirect ctx of
               (code, location) \<Rightarrow>
                 if code \<noteq> 0
                 then finish (emptyResult\<lparr>Status := code, Location := location @ getQuery ctx\<rparr>)
                        ctx websites
                 else
                   (case initWebsite rt websites ctx of
                      (err, ctx, websites) \<Rightarrow>
                        if err \<noteq> None
                        then finish (emptyResult\<lparr>Status := StatusInternalServerError\<rparr>)
                               ctx websites
                        else
                          (let location = getCleanURL ctx in
                           if location \<noteq> []
                           then finish (emptyResult\<lparr>Status := StatusMovedPermanently,
                                          Location := location @ getQuery ctx\<rparr>) ctx websites
                           else
                             (case getMetadata ctx of
                                (res, ctx) \<Rightarrow>
                                  if StatusCode res = StatusNotFound
                                  then (case sendNotFound ctx of
                                          (hr, ctx) \<Rightarrow> finish hr ctx websites)
                                  else if StatusCode res \<noteq> StatusOK
                                  then finish (emptyResult\<lparr>Status := StatusCode res,
                                                 Message := ResStatus res\<rparr>) ctx websites
                                  else (case serveObject rt ctx res of
                                          (hr, ctx) \<Rightarrow> finish hr ctx websites))))))"

section \<open>The resolver as a sequence of probes\<close>

text \<open>
  The fallback chain probes an ordered list of candidates and stops at the first probe
  that returns a response. \<open>rewriteCandidates\<close> lists the candidates of lines 177 to
  185, \<open>probeEach\<close> probes a list in order, \<open>probeObjects\<close> lists every object
  \<open>getMetadata\<close> may send a \<open>HEAD\<close> for, in order, and \<open>primaryObject\<close> is the
  working object \<open>getMetadata\<close> has when it starts to probe. \<open>answers\<close> replays
  what the origin answered to a list of calls made in sequence.
\<close>

definition rewriteCandidates :: "HandlerContext \<Rightarrow> string list" where
  "rewriteCandidates ctx =
     [TrimRight (object ctx) ''/'' @ ''/'' @ MainPageSuffix (website ctx)]
     @ (if CleanUrls (firebase ctx) then [TrimRight (object ctx) ''/'' @ ''.html''] else [])
     @ [processRewrites (firebase ctx) (Path (URL (r ctx)))]"

fun probeEach :: "HandlerContext \<Rightarrow> string list \<Rightarrow> Response option \<times> HandlerContext" where
  "probeEach ctx [] = (None, ctx)"
| "probeEach ctx (cand # cands) =
     (case getRewriteMetadata ctx cand of
        (Some res, ctx') \<Rightarrow> (Some res, ctx')
      | (None, ctx') \<Rightarrow> probeEach ctx' cands)"

definition primaryObject :: "HandlerContext \<Rightarrow> string" where
  "primaryObject ctx =
     (let c = collapseObject ctx in
      if shortCircuit c then object c else object (stripObject c))"

definition probeObjects :: "HandlerContext \<Rightarrow> string list" where
  "probeObjects ctx =
     (let c = collapseObject ctx in
      if shortCircuit c then [processRewrites (firebase c) (Path (URL (r c)))]
      else (let c = stripObject c in object c # rewriteCandidates c))"

fun answers ::
  "(call list \<Rightarrow> call \<Rightarrow> Response option) \<Rightarrow> call list \<Rightarrow> call list \<Rightarrow> Response option list" where
  "answers t hist [] = []"
| "answers t hist (c # cs) = t hist c # answers t (hist @ [c]) cs"

definition logged :: "HandlerContext \<Rightarrow> call list \<Rightarrow> HandlerContext" where
  "logged ctx cs = ctx\<lparr>gcs := (gcs ctx)\<lparr>calls := calls (gcs ctx) @ cs\<rparr>\<rparr>"

text \<open>
  What a run of probes satisfies. The calls \<open>new\<close> it made go, in order, to some of
  the candidates; only the last call can have met a transport error; if it did, the run
  returned the bare 500 response and left the working object alone; the working object
  changed only to the object of the last call, whose answer was a response other than
  404 and is what the run returned; a run that returned nothing left the object alone.
\<close>

definition chainOK ::
  "(call list \<Rightarrow> call \<Rightarrow> Response option) \<Rightarrow> call list \<Rightarrow> string \<Rightarrow> string \<Rightarrow> string list
     \<Rightarrow> call list \<Rightarrow> Response option \<Rightarrow> string \<Rightarrow> bool" where
  "chainOK t hist bkt obj cands new ro obj' \<longleftrightarrow>
     subseq new (map (\<lambda>c. HEAD (storage @ bkt @ c)) cands)
     \<and> None \<notin> set (butlast (answers t hist new))
     \<and> (new \<noteq> [] \<and> last (answers t hist new) = None \<longrightarrow>
          ro = Some (statusResponse StatusInternalServerError) \<and> obj' = obj)
     \<and> (obj' \<noteq> obj \<longrightarrow> new \<noteq> [] \<and> last new = HEAD (storage @ bkt @ obj')
          \<and> (\<exists>res. ro = Some res \<and> last (answers t hist new) = Some res
                \<and> StatusCode res \<noteq> StatusNotFound))
     \<and> (ro = None \<longrightarrow> obj' = obj)"

definition frame :: "HandlerContext \<Rightarrow> HandlerContext \<Rightarrow> bool" where
  "frame ctx ctx' \<longleftrightarrow> bucket ctx' = bucket ctx \<and> website ctx' = website ctx
     \<and> firebase ctx' = firebase ctx \<and> r ctx' = r ctx \<and> w ctx' = w ctx
     \<and> transport (gcs ctx') = transport (gcs ctx)"

section \<open>Feeding a path back\<close>

text \<open>The same request context with another request path: the request that follows a redirect.\<close>

definition withPath :: "HandlerContext \<Rightarrow> string \<Rightarrow> HandlerContext" where
  "withPath ctx p = ctx\<lparr>r := (r ctx)\<lparr>URL := (URL (r ctx))\<lparr>Path := p\<rparr>\<rparr>\<rparr>"

section \<open>The headers of the not-found response\<close>

text \<open>
  The security-header baseline as the specification lists it, with the header names in
  the canonical spelling of \<open>net/http\<close>, and the header map the specification gives
  the not-found response before \<open>processHeaders\<close>: the three content headers copied
  from the origin's answer, then the baseline.
\<close>

definition securityBaseline :: header where
  "securityBaseline =
     [''Referrer-Policy'' \<mapsto> [''strict-origin-when-cross-origin''],
      ''Strict-Transport-Security'' \<mapsto> [''max-age=86400''],
      ''X-Content-Type-Options'' \<mapsto> [''nosniff''],
      ''X-Download-Options'' \<mapsto> [''noopen''],
      ''X-Frame-Options'' \<mapsto> [''SAMEORIGIN''],
      ''X-Xss-Protection'' \<mapsto> [''1; mode=block'']]"

definition notFoundHeaders :: "header \<Rightarrow> header \<Rightarrow> header" where
  "notFoundHeaders h origin =
     (h(''Content-Type'' \<mapsto> Header_index origin ''Content-Type'',
        ''Content-Language'' \<mapsto> Header_index origin ''Content-Language'',
        ''Content-Disposition'' \<mapsto> Header_index origin ''Content-Disposition''))
     ++ securityBaseline"

section \<open>Example inputs\<close>

text \<open>
  A date parser for the examples: it knows two HTTP dates and rejects every other
  string, the empty one included, as \<open>http.ParseTime\<close> does.
\<close>

definition exampleParseTime :: "string \<Rightarrow> int option" where
  "exampleParseTime s =
     (if s = ''Thu, 01 Jan 1970 00:00:00 GMT'' then Some 0
      else if s = ''Fri, 02 Jan 1970 00:00:00 GMT'' then Some 86400
      else None)"

definition exampleEtag :: string where
  "exampleEtag = [CHR 0x22] @ ''abc123'' @ [CHR 0x22]"

definition exampleURL :: URL where
  "exampleURL = \<lparr>Hostname = ''example.com'', Path = ''/missing'',
     EscapedPath = ''/missing'', RawQuery = []\<rparr>"

definition requestIfMatch :: "string list \<Rightarrow> Request" where
  "requestIfMatch matchers =
     \<lparr>Method = ''GET'', URL = exampleURL, ReqHeader = [''If-Match'' \<mapsto> matchers]\<rparr>"

definition requestBothMatch :: Request where
  "requestBothMatch =
     \<lparr>Method = ''GET'', URL = exampleURL,
      ReqHeader = [''If-Match'' \<mapsto> [''*''], ''If-None-Match'' \<mapsto> [exampleEtag]]\<rparr>"

text \<open>
  A bucket \<open>example.com\<close> for the examples. Its rules redirect \<open>/old\<close> to
  \<open>/new\<close>, rewrite nothing and add no header. Its origin has the objects
  \<open>/index.html\<close> and \<open>/docs/index.html\<close>, answers a \<open>HEAD\<close> for the bare bucket
  URL, serves \<open>/404.html\<close>, fails to answer a \<open>HEAD\<close> for \<open>/broken.html\<close> and
  says 404 to everything else.
\<close>

definition exampleFirebase :: "bool \<Rightarrow> bool option \<Rightarrow> FirebaseConfiguration" where
  "exampleFirebase clean slash =
     \<lparr>processRedirects = (\<lambda>p. if p = ''/old'' then (StatusMovedPermanently, ''/new'') else (0, [])),
      processRewrites = (\<lambda>p. []),
      processHeaders = (\<lambda>p h. h),
      CleanUrls = clean, TrailingSlash = slash\<rparr>"

definition exampleFirebases :: "bool \<Rightarrow> bool option \<Rightarrow> string \<Rightarrow> FirebaseConfiguration" where
  "exampleFirebases clean slash bkt = exampleFirebase clean slash"

definition okResponse :: "string \<Rightarrow> Response" where
  "okResponse body =
     \<lparr>StatusCode = StatusOK, ResStatus = ''200 OK'',
      Header = [''Etag'' \<mapsto> [exampleEtag],
                ''Last-Modified'' \<mapsto> [''Thu, 01 Jan 1970 00:00:00 GMT''],
                ''Content-Type'' \<mapsto> [''text/html'']],
      Body = body\<rparr>"

definition exampleOrigin :: "call list \<Rightarrow> call \<Rightarrow> Response option" where
  "exampleOrigin hist c =
     (if c = HEAD ''https://storage.googleapis.com/example.com/index.html''
         \<or> c = HEAD ''https://storage.googleapis.com/example.com/docs/index.html''
         \<or> c = HEAD ''https://storage.googleapis.com/example.com''
      then Some (okResponse [])
      else if c = GET ''https://storage.googleapis.com/example.com/index.html''
      then Some (okResponse ''<html>'')
      else if c = GET ''https://storage.googleapis.com/example.com/404.html''
      then Some (okResponse ''not here'')
      else if c = HEAD ''https://storage.googleapis.com/example.com/broken.html''
      then None
      else Some (statusResponse StatusNotFound))"

definition exampleRuntime :: Runtime where
  "exampleRuntime =
     \<lparr>parseTime = exampleParseTime, timeNow = ''Fri, 02 Jan 1970 00:00:00 GMT'',
      blobKeyForFile = (\<lambda>p. Some (''key:'' @ p)), xmlDecode = (\<lambda>b. None),
      roundTrip = exampleOrigin\<rparr>"

definition exampleWebsites :: "string \<Rightarrow> string \<Rightarrow> websiteCache" where
  "exampleWebsites mps nfp = [''example.com'' \<mapsto> \<lparr>MainPageSuffix = mps, NotFoundPage = nfp\<rparr>]"

definition emptyWriter :: ResponseWriter where
  "emptyWriter = \<lparr>wHeader = Map.empty, wStatus = None, wBody = []\<rparr>"

definition exampleRequest :: "string \<Rightarrow> string \<Rightarrow> Request" where
  "exampleRequest p q =
     \<lparr>Method = ''GET'',
      URL = \<lparr>Hostname = ''example.com'', Path = p, EscapedPath = p, RawQuery = q\<rparr>,
      ReqHeader = Map.empty\<rparr>"

definition exampleContext :: "bool \<Rightarrow> bool option \<Rightarrow> string \<Rightarrow> string \<Rightarrow> HandlerContext" where
  "exampleContext clean slash mps p =
     makeContext exampleRuntime (exampleWebsites mps ''404.html'') (exampleFirebases clean slash)
       emptyWriter (exampleRequest p [])"

section \<open>Properties of the conditional evaluator\<close>

lemma ifMatchLoop_mutable: "ifMatchLoop etag True matchers \<longleftrightarrow> ''*'' \<in> set matchers"
  by (induction matchers) auto

lemma checkNoneMatch_range:
  "checkNoneMatch ParseTime req etag modified \<in> {0, StatusNotModified}"
  by (simp add: checkNoneMatch_def split: option.split)

text \<open>
  C1, as stated, fails: with \<open>If-Match: abc\<close> (no \<open>*\<close>), a mutable origin and an
  empty etag the evaluator answers 500, not 412, because the input check comes first.
\<close>

theorem C1_counterexample:
  "ReqHeader (requestIfMatch [''abc'']) ''If-Match'' = Some [''abc'']
   \<and> ''*'' \<notin> set [''abc'']
   \<and> checkConditions exampleParseTime (requestIfMatch [''abc''])
         [] ''Thu, 01 Jan 1970 00:00:00 GMT'' True = StatusInternalServerError"
  by (simp add: checkConditions_def requestIfMatch_def exampleParseTime_def)

text \<open>
  C1, amended: when the etag is non-empty and begins with a double quote and
  \<open>lastModified\<close> parses, a request that carries \<open>If-Match\<close>, evaluated with
  \<open>mutable = true\<close>, gets 412 unless one of the \<open>If-Match\<close> values is exactly \<open>*\<close>;
  when one is, the \<open>If-Match\<close> check passes: the answer is the one of the
  \<open>If-None-Match\<close> / \<open>If-Modified-Since\<close> stage, which is 0 or 304 and never 412.
\<close>

theorem C1_if_match_mutable:
  assumes "ReqHeader req ''If-Match'' = Some matchers"
    and "ParseTime lastModified = Some modified"
    and "etag \<noteq> []" and "hd etag = CHR 0x22"
  shows "(''*'' \<notin> set matchers \<longrightarrow>
            checkConditions ParseTime req etag lastModified True = StatusPreconditionFailed)
       \<and> (''*'' \<in> set matchers \<longrightarrow>
            checkConditions ParseTime req etag lastModified True
              = checkNoneMatch ParseTime req etag modified
          \<and> checkConditions ParseTime req etag lastModified True \<noteq> StatusPreconditionFailed)"
proof -
  have nm: "checkNoneMatch ParseTime req etag modified \<noteq> StatusPreconditionFailed"
    using checkNoneMatch_range [of ParseTime req etag modified] by auto
  show ?thesis
    using assms nm by (simp add: checkConditions_def ifMatchLoop_mutable)
qed

theorem C1_if_match_mutable_witness:
  "checkConditions exampleParseTime (requestIfMatch [''abc'', exampleEtag]) exampleEtag
      ''Thu, 01 Jan 1970 00:00:00 GMT'' True = StatusPreconditionFailed
   \<and> checkConditions exampleParseTime (requestIfMatch [''abc'', ''*'']) exampleEtag
      ''Thu, 01 Jan 1970 00:00:00 GMT'' True = 0"
proof -
  have h1: "ReqHeader (requestIfMatch [''abc'', exampleEtag]) ''If-Match''
              = Some [''abc'', exampleEtag]"
    by (simp add: requestIfMatch_def)
  have h2: "ReqHeader (requestIfMatch [''abc'', ''*'']) ''If-Match'' = Some [''abc'', ''*'']"
    by (simp add: requestIfMatch_def)
  have p: "exampleParseTime ''Thu, 01 Jan 1970 00:00:00 GMT'' = Some 0"
    by (simp add: exampleParseTime_def)
  have e: "exampleEtag \<noteq> []" "hd exampleEtag = CHR 0x22"
    by (simp_all add: exampleEtag_def)
  have n: "checkNoneMatch exampleParseTime (requestIfMatch [''abc'', ''*'']) exampleEtag 0 = 0"
    by (simp add: checkNoneMatch_def requestIfMatch_def Header_Get_def Header_index_def exampleParseTime_def)
  show ?thesis
    using C1_if_match_mutable [of "requestIfMatch [''abc'', exampleEtag]"
        "[''abc'', exampleEtag]" exampleParseTime "''Thu, 01 Jan 1970 00:00:00 GMT''" 0
        exampleEtag, OF h1 p e]
      C1_if_match_mutable [of "requestIfMatch [''abc'', ''*'']"
        "[''abc'', ''*'']" exampleParseTime "''Thu, 01 Jan 1970 00:00:00 GMT''" 0
        exampleEtag, OF h2 p e] n
    by (simp add: exampleEtag_def)
qed

text \<open>
  C5: an empty etag, an etag that does not begin with a double quote, or a
  \<open>lastModified\<close> that does not parse makes the evaluator return 500, whatever the
  request headers and the \<open>mutable\<close> flag are.
\<close>

theorem C5_invalid_input_500:
  "etag = [] \<or> hd etag \<noteq> CHR 0x22 \<or> ParseTime lastModified = None \<Longrightarrow>
   checkConditions ParseTime req etag lastModified mutable = StatusInternalServerError"
  by (auto simp: checkConditions_def split: option.split)

theorem C5_invalid_input_500_witness:
  "checkConditions exampleParseTime requestBothMatch []
      ''Thu, 01 Jan 1970 00:00:00 GMT'' True = StatusInternalServerError
   \<and> checkConditions exampleParseTime requestBothMatch ''abc123''
      ''Thu, 01 Jan 1970 00:00:00 GMT'' False = StatusInternalServerError
   \<and> checkConditions exampleParseTime requestBothMatch exampleEtag
      ''yesterday'' False = StatusInternalServerError"
proof -
  have a: "([]::string) = [] \<or> hd ([]::string) \<noteq> CHR 0x22
           \<or> exampleParseTime ''Thu, 01 Jan 1970 00:00:00 GMT'' = None"
    by simp
  have b: "''abc123'' = [] \<or> hd ''abc123'' \<noteq> CHR 0x22
           \<or> exampleParseTime ''Thu, 01 Jan 1970 00:00:00 GMT'' = None"
    by simp
  have c: "exampleEtag = [] \<or> hd exampleEtag \<noteq> CHR 0x22
           \<or> exampleParseTime ''yesterday'' = None"
    by (simp add: exampleParseTime_def)
  show ?thesis
    using C5_invalid_input_500 [of "[]" exampleParseTime
        "''Thu, 01 Jan 1970 00:00:00 GMT''" requestBothMatch True, OF a]
      C5_invalid_input_500 [of "''abc123''" exampleParseTime
        "''Thu, 01 Jan 1970 00:00:00 GMT''" requestBothMatch False, OF b]
      C5_invalid_input_500 [of exampleEtag exampleParseTime
        "''yesterday''" requestBothMatch False, OF c]
    by simp
qed

text \<open>
  C6: when \<open>If-Match\<close> is present, the answer does not depend on
  \<open>If-Unmodified-Since\<close> (it may be replaced by any value or removed); when
  \<open>If-None-Match\<close> is present, the answer does not depend on \<open>If-Modified-Since\<close>.
  This holds for every etag and \<open>lastModified\<close>, the valid ones included.
\<close>

theorem C6_precedence:
  "(ReqHeader req ''If-Match'' \<noteq> None \<longrightarrow>
      checkConditions ParseTime
        (req\<lparr>ReqHeader := (ReqHeader req)(''If-Unmodified-Since'' := v)\<rparr>)
        etag lastModified mutable
      = checkConditions ParseTime req etag lastModified mutable)
   \<and> (ReqHeader req ''If-None-Match'' \<noteq> None \<longrightarrow>
      checkConditions ParseTime
        (req\<lparr>ReqHeader := (ReqHeader req)(''If-Modified-Since'' := v)\<rparr>)
        etag lastModified mutable
      = checkConditions ParseTime req etag lastModified mutable)"
  by (auto simp: checkConditions_def checkNoneMatch_def Header_Get_def Header_index_def
           split: option.split)

theorem C6_precedence_witness:
  "checkConditions exampleParseTime
     (requestBothMatch\<lparr>ReqHeader := (ReqHeader requestBothMatch)
        (''If-Unmodified-Since'' \<mapsto> [''Thu, 01 Jan 1970 00:00:00 GMT''])\<rparr>)
     exampleEtag ''Fri, 02 Jan 1970 00:00:00 GMT'' False = StatusNotModified
   \<and> checkConditions exampleParseTime
     (requestBothMatch\<lparr>ReqHeader := (ReqHeader requestBothMatch)
        (''If-Modified-Since'' \<mapsto> [''Thu, 01 Jan 1970 00:00:00 GMT''])\<rparr>)
     exampleEtag ''Fri, 02 Jan 1970 00:00:00 GMT'' False = StatusNotModified"
proof -
  have m: "ReqHeader requestBothMatch ''If-Match'' \<noteq> None"
    and n: "ReqHeader requestBothMatch ''If-None-Match'' \<noteq> None"
    by (simp_all add: requestBothMatch_def)
  have base: "checkConditions exampleParseTime requestBothMatch exampleEtag
                ''Fri, 02 Jan 1970 00:00:00 GMT'' False = StatusNotModified"
    by (simp add: checkConditions_def checkNoneMatch_def requestBothMatch_def
        exampleParseTime_def exampleEtag_def)
  show ?thesis
    using C6_precedence [of requestBothMatch exampleParseTime
        "Some [''Thu, 01 Jan 1970 00:00:00 GMT'']" exampleEtag
        "''Fri, 02 Jan 1970 00:00:00 GMT''" False] m n base
    by simp
qed

section \<open>Properties of the object resolver\<close>

lemma length_answers [simp]: "length (answers t hist new) = length new"
  by (induction new arbitrary: hist) auto

lemma answers_Nil_iff [simp]: "answers t hist new = [] \<longleftrightarrow> new = []"
  by (cases new) auto

text \<open>The four ways a rewrite probe can go.\<close>

lemma getRewriteMetadata_cases:
  assumes "getRewriteMetadata ctx rw = (ro, ctx')"
  obtains (skip) "ro = None" "ctx' = ctx"
    | (miss) res where "ro = None" "ctx' = logged ctx [HEAD (storage @ bucket ctx @ rw)]"
        "transport (gcs ctx) (calls (gcs ctx)) (HEAD (storage @ bucket ctx @ rw)) = Some res"
        "StatusCode res = StatusNotFound" "length rw > 1" "hd rw = CHR ''/''"
    | (err) "ro = Some (statusResponse StatusInternalServerError)"
        "ctx' = logged ctx [HEAD (storage @ bucket ctx @ rw)]"
        "transport (gcs ctx) (calls (gcs ctx)) (HEAD (storage @ bucket ctx @ rw)) = None"
        "length rw > 1" "hd rw = CHR ''/''"
    | (hit) res where "ro = Some res" "StatusCode res \<noteq> StatusNotFound"
        "ctx' = (logged ctx [HEAD (storage @ bucket ctx @ rw)])\<lparr>object := rw\<rparr>"
        "transport (gcs ctx) (calls (gcs ctx)) (HEAD (storage @ bucket ctx @ rw)) = Some res"
        "length rw > 1" "hd rw = CHR ''/''"
proof (cases "length rw > 1 \<and> hd rw = CHR ''/'' \<and> rw \<noteq> object ctx")
  case False
  have "getRewriteMetadata ctx rw = (None, ctx)"
    unfolding getRewriteMetadata_def by (rule if_not_P [OF False])
  with assms have "ro = None" "ctx' = ctx" by simp_all
  then show ?thesis by (rule skip)
next
  case True
  let ?p = "HEAD (storage @ bucket ctx @ rw)"
  show ?thesis
  proof (cases "transport (gcs ctx) (calls (gcs ctx)) ?p")
    case None
    then have "ro = Some (statusResponse StatusInternalServerError)" "ctx' = logged ctx [?p]"
      using assms True by (simp_all add: getRewriteMetadata_def Client_Head_def logged_def)
    then show ?thesis using None True by (intro err) simp_all
  next
    case (Some res)
    show ?thesis
    proof (cases "StatusCode res = StatusNotFound")
      case nf: True
      then have "ro = None" "ctx' = logged ctx [?p]"
        using assms True Some by (simp_all add: getRewriteMetadata_def Client_Head_def logged_def)
      then show ?thesis using Some nf True by (intro miss [of res]) simp_all
    next
      case ok: False
      then have "ro = Some res" "ctx' = (logged ctx [?p])\<lparr>object := rw\<rparr>"
        using assms True Some by (simp_all add: getRewriteMetadata_def Client_Head_def logged_def)
      then show ?thesis using Some ok True by (intro hit [of res]) simp_all
    qed
  qed
qed

lemma getRewriteMetadata_None:
  assumes "getRewriteMetadata ctx rw = (None, ctx')"
  shows "object ctx' = object ctx" "firebase ctx' = firebase ctx" "r ctx' = r ctx"
    "website ctx' = website ctx"
  using assms by (cases rule: getRewriteMetadata_cases; simp add: logged_def)+

lemma frame_logged [simp]:
  "frame ctx (logged ctx cs)" "frame ctx ((logged ctx cs)\<lparr>object := obj\<rparr>)" "frame ctx ctx"
  by (simp_all add: frame_def logged_def)

lemma chainOK_skip:
  assumes "chainOK t h b ob cs new ro ob'"
  shows "chainOK t h b ob (c # cs) new ro ob'"
proof -
  have "subseq new (map (\<lambda>c. HEAD (storage @ b @ c)) cs)"
    using assms unfolding chainOK_def by (elim conjE)
  then have "subseq new (map (\<lambda>c. HEAD (storage @ b @ c)) (c # cs))"
    unfolding list.map by (rule list_emb_Cons)
  then show ?thesis
    using assms unfolding chainOK_def by (elim conjE) (intro conjI)
qed

lemma chainOK_miss:
  assumes "chainOK t (h @ [HEAD (storage @ b @ c)]) b ob cs new ro ob'"
    and "t h (HEAD (storage @ b @ c)) = Some res"
  shows "chainOK t h b ob (c # cs) (HEAD (storage @ b @ c) # new) ro ob'"
proof -
  let ?p = "HEAD (storage @ b @ c)"
  let ?A = "answers t (h @ [?p]) new"
  have a: "answers t h (?p # new) = Some res # ?A" using assms(2) by simp
  have 1: "subseq (?p # new) (map (\<lambda>c. HEAD (storage @ b @ c)) (c # cs))"
    using assms(1) unfolding chainOK_def by simp
  have 2: "None \<notin> set (butlast (Some res # ?A))"
    using assms(1) unfolding chainOK_def by (cases "new = []") auto
  have 3: "last (Some res # ?A) = None \<longrightarrow>
             ro = Some (statusResponse StatusInternalServerError) \<and> ob' = ob"
    using assms(1) unfolding chainOK_def by (cases "new = []") auto
  have 4: "ob' \<noteq> ob \<longrightarrow> ?p # new \<noteq> [] \<and> last (?p # new) = HEAD (storage @ b @ ob')
          \<and> (\<exists>res'. ro = Some res' \<and> last (Some res # ?A) = Some res'
                \<and> StatusCode res' \<noteq> StatusNotFound)"
    using assms(1) unfolding chainOK_def by (cases "new = []") auto
  have 5: "ro = None \<longrightarrow> ob' = ob"
    using assms(1) unfolding chainOK_def by blast
  show ?thesis unfolding chainOK_def a using 1 2 3 4 5 by blast
qed

lemma chainOK_err:
  assumes "t h (HEAD (storage @ b @ c)) = None"
  shows "chainOK t h b ob (c # cs) [HEAD (storage @ b @ c)]
           (Some (statusResponse StatusInternalServerError)) ob"
  unfolding chainOK_def using assms by simp

lemma chainOK_hit:
  assumes "t h (HEAD (storage @ b @ c)) = Some res" "StatusCode res \<noteq> StatusNotFound"
  shows "chainOK t h b ob (c # cs) [HEAD (storage @ b @ c)] (Some res) c"
  unfolding chainOK_def using assms by simp

lemma probeEach_chain:
  "probeEach ctx cands = (ro, ctx') \<Longrightarrow>
   frame ctx ctx' \<and>
   (\<exists>new. calls (gcs ctx') = calls (gcs ctx) @ new
      \<and> chainOK (transport (gcs ctx)) (calls (gcs ctx)) (bucket ctx) (object ctx)
            cands new ro (object ctx'))"
proof (induction cands arbitrary: ctx)
  case Nil
  then have "ro = None" "ctx' = ctx" by simp_all
  then show ?case by (simp add: chainOK_def)
next
  case (Cons c cs)
  obtain ro1 ctx1 where g: "getRewriteMetadata ctx c = (ro1, ctx1)"
    by (cases "getRewriteMetadata ctx c")
  let ?p = "HEAD (storage @ bucket ctx @ c)"
  let ?t = "transport (gcs ctx)" and ?h = "calls (gcs ctx)"
  from g show ?case
  proof (cases rule: getRewriteMetadata_cases)
    case skip
    with Cons.prems g have "probeEach ctx cs = (ro, ctx')" by simp
    from Cons.IH [OF this] obtain new where
      fr: "frame ctx ctx'" and n: "calls (gcs ctx') = ?h @ new"
      and ok: "chainOK ?t ?h (bucket ctx) (object ctx) cs new ro (object ctx')"
      by (elim conjE exE)
    have ok': "chainOK ?t ?h (bucket ctx) (object ctx) (c # cs) new ro (object ctx')"
      using ok by (rule chainOK_skip)
    show ?thesis
      by (intro conjI exI [of _ new]) (rule fr n ok')+
  next
    case (miss res)
    with Cons.prems g have pe: "probeEach ctx1 cs = (ro, ctx')" by simp
    have c1: "calls (gcs ctx1) = ?h @ [?p]" "transport (gcs ctx1) = ?t"
      "bucket ctx1 = bucket ctx" "object ctx1 = object ctx"
      using miss(2) by (simp_all add: logged_def)
    from Cons.IH [OF pe] obtain new where
      fr: "frame ctx1 ctx'" and n: "calls (gcs ctx') = (?h @ [?p]) @ new"
      and ok: "chainOK ?t (?h @ [?p]) (bucket ctx) (object ctx) cs new ro (object ctx')"
      unfolding c1 by (elim conjE exE)
    have fr': "frame ctx ctx'" using fr miss(2) by (simp add: frame_def logged_def)
    have n': "calls (gcs ctx') = ?h @ (?p # new)" using n by simp
    have ok': "chainOK ?t ?h (bucket ctx) (object ctx) (c # cs) (?p # new) ro (object ctx')"
      using ok miss(3) by (rule chainOK_miss)
    show ?thesis
      by (intro conjI exI [of _ "?p # new"]) (rule fr' n' ok')+
  next
    case err
    with Cons.prems g have e: "ro = ro1" "ctx' = ctx1" by simp_all
    have o: "object ctx' = object ctx" using e err(2) by (simp add: logged_def)
    have ok': "chainOK ?t ?h (bucket ctx) (object ctx) (c # cs) [?p] ro (object ctx')"
      unfolding o e(1) err(1) using err(3) by (rule chainOK_err)
    have n': "calls (gcs ctx') = ?h @ [?p]" using err(2) e by (simp add: logged_def)
    have fr': "frame ctx ctx'" using err(2) e by simp
    show ?thesis
      by (intro conjI exI [of _ "[?p]"]) (rule fr' n' ok')+
  next
    case (hit res)
    with Cons.prems g have e: "ro = ro1" "ctx' = ctx1" by simp_all
    have o: "object ctx' = c" using e hit(3) by (simp add: logged_def)
    have ok': "chainOK ?t ?h (bucket ctx) (object ctx) (c # cs) [?p] ro (object ctx')"
      unfolding o e(1) hit(1) using hit(4,2) by (rule chainOK_hit)
    have n': "calls (gcs ctx') = ?h @ [?p]" using hit(3) e by (simp add: logged_def)
    have fr': "frame ctx ctx'" using hit(3) e by simp
    show ?thesis
      by (intro conjI exI [of _ "[?p]"]) (rule fr' n' ok')+
  qed
qed

text \<open>The fallback chain is the sequence of probes of its candidates.\<close>

lemma fallbackChain_probeEach:
  "fallbackChain ctx res =
     (case probeEach ctx (rewriteCandidates ctx) of
        (Some r', c') \<Rightarrow> (r', c') | (None, c') \<Rightarrow> (res, c'))"
proof -
  let ?c1 = "TrimRight (object ctx) ''/'' @ ''/'' @ MainPageSuffix (website ctx)"
  obtain ro1 ctx1 where g1: "getRewriteMetadata ctx ?c1 = (ro1, ctx1)"
    by (cases "getRewriteMetadata ctx ?c1")
  show ?thesis
  proof (cases ro1)
    case (Some a)
    then show ?thesis using g1 by (simp add: fallbackChain_def rewriteCandidates_def)
  next
    case None
    note f1 = getRewriteMetadata_None [OF g1 [unfolded None]]
    let ?c3 = "processRewrites (firebase ctx) (Path (URL (r ctx)))"
    show ?thesis
    proof (cases "CleanUrls (firebase ctx)")
      case False
      obtain ro3 ctx3 where g3: "getRewriteMetadata ctx1 ?c3 = (ro3, ctx3)"
        by (cases "getRewriteMetadata ctx1 ?c3")
      show ?thesis using g1 None f1 False g3
        by (cases ro3) (simp_all add: fallbackChain_def rewriteCandidates_def)
    next
      case True
      let ?c2 = "TrimRight (object ctx) ''/'' @ ''.html''"
      obtain ro2 ctx2 where g2: "getRewriteMetadata ctx1 ?c2 = (ro2, ctx2)"
        by (cases "getRewriteMetadata ctx1 ?c2")
      show ?thesis
      proof (cases ro2)
        case (Some a)
        then show ?thesis using g1 None f1 True g2
          by (simp add: fallbackChain_def rewriteCandidates_def)
      next
        case n2: None
        note f2 = getRewriteMetadata_None [OF g2 [unfolded n2]]
        obtain ro3 ctx3 where g3: "getRewriteMetadata ctx2 ?c3 = (ro3, ctx3)"
          by (cases "getRewriteMetadata ctx2 ?c3")
        show ?thesis using g1 None f1 True g2 n2 f2 g3
          by (cases ro3) (simp_all add: fallbackChain_def rewriteCandidates_def)
      qed
    qed
  qed
qed

lemma collapse_frame [simp]:
  "bucket (collapseObject ctx) = bucket ctx" "gcs (collapseObject ctx) = gcs ctx"
  "firebase (collapseObject ctx) = firebase ctx" "website (collapseObject ctx) = website ctx"
  "r (collapseObject ctx) = r ctx" "w (collapseObject ctx) = w ctx"
  by (simp_all add: collapseObject_def)

lemma strip_frame [simp]:
  "bucket (stripObject ctx) = bucket ctx" "gcs (stripObject ctx) = gcs ctx"
  "firebase (stripObject ctx) = firebase ctx" "website (stripObject ctx) = website ctx"
  "r (stripObject ctx) = r ctx" "w (stripObject ctx) = w ctx"
  by (simp_all add: stripObject_def)

text \<open>A run of \<open>getMetadata\<close> is a run of probes over \<open>probeObjects\<close>.\<close>

lemma getMetadata_chain:
  assumes "getMetadata ctx = (res, ctx')"
  shows "frame ctx ctx' \<and>
    (\<exists>new ro. calls (gcs ctx') = calls (gcs ctx) @ new
       \<and> chainOK (transport (gcs ctx)) (calls (gcs ctx)) (bucket ctx) (primaryObject ctx)
             (probeObjects ctx) new ro (object ctx')
       \<and> (ro = None \<or> ro = Some res))"
proof (cases "shortCircuit (collapseObject ctx)")
  case True
  let ?c = "collapseObject ctx"
  let ?rw = "processRewrites (firebase ?c) (Path (URL (r ?c)))"
  obtain ro1 ctx1 where g: "probeEach ?c [?rw] = (ro1, ctx1)"
    by (cases "probeEach ?c [?rw]")
  have gm: "getMetadata ctx = (case probeEach ?c [?rw] of
              (Some res, ctx') \<Rightarrow> (res, ctx')
            | (None, ctx') \<Rightarrow> (statusResponse StatusNotFound, ctx'))"
    using True by (simp add: getMetadata_def split: prod.split option.split)
  have e: "ctx' = ctx1" "ro1 = None \<or> ro1 = Some res"
    using assms g unfolding gm by (cases ro1; simp)+
  have po: "primaryObject ctx = object ?c" "probeObjects ctx = [?rw]"
    using True by (simp_all add: primaryObject_def probeObjects_def)
  from probeEach_chain [OF g] obtain new where
    fr: "frame ?c ctx1" and n: "calls (gcs ctx1) = calls (gcs ?c) @ new"
    and ok: "chainOK (transport (gcs ?c)) (calls (gcs ?c)) (bucket ?c) (object ?c) [?rw]
               new ro1 (object ctx1)"
    by (elim conjE exE)
  have fr': "frame ctx ctx'" using fr e(1) by (simp add: frame_def)
  have n': "calls (gcs ctx') = calls (gcs ctx) @ new" using n e(1) by simp
  have ok': "chainOK (transport (gcs ctx)) (calls (gcs ctx)) (bucket ctx) (primaryObject ctx)
             (probeObjects ctx) new ro1 (object ctx')"
    using ok e(1) po by simp
  show ?thesis
    by (intro conjI exI [of _ new] exI [of _ ro1]) (rule fr' n' ok' e(2))+
next
  case False
  let ?c = "stripObject (collapseObject ctx)"
  let ?p = "HEAD (storage @ bucket ctx @ object ?c)"
  let ?t = "transport (gcs ctx)" and ?h = "calls (gcs ctx)"
  let ?c' = "?c\<lparr>gcs := (gcs ctx)\<lparr>calls := ?h @ [?p]\<rparr>\<rparr>"
  have po: "primaryObject ctx = object ?c" "probeObjects ctx = object ?c # rewriteCandidates ?c"
    using False by (simp_all add: primaryObject_def probeObjects_def Let_def)
  have frc: "frame ctx ?c'" by (simp add: frame_def)
  have cc: "calls (gcs ?c') = ?h @ [?p]" "object ?c' = object ?c" by simp_all
  show ?thesis
  proof (cases "?t ?h ?p")
    case None
    then have e: "res = statusResponse StatusInternalServerError" "ctx' = ?c'"
      using assms False by (simp_all add: getMetadata_def Client_Head_def Let_def)
    have ok': "chainOK ?t ?h (bucket ctx) (primaryObject ctx) (probeObjects ctx) [?p]
                 (Some res) (object ctx')"
      unfolding po e cc using None by (rule chainOK_err)
    show ?thesis
      unfolding e(2) using frc cc(1) ok' [unfolded e(2)] by blast
  next
    case (Some res0)
    let ?fb = "StatusCode res0 = StatusNotFound
                \<or> HasSuffix (object ?c) ''/''
                  \<and> Header_Get (Header res0) ''X-Goog-Stored-Content-Length'' = ''0''"
    have gm0: "getMetadata ctx = (if ?fb then fallbackChain ?c' res0 else (res0, ?c'))"
      using False Some by (simp add: getMetadata_def Client_Head_def Let_def)
    show ?thesis
    proof (cases ?fb)
      case nofb: False
      have "getMetadata ctx = (res0, ?c')"
        unfolding gm0 by (rule if_not_P [OF nofb])
      with assms have e: "res = res0" "ctx' = ?c'" by simp_all
      have ok': "chainOK ?t ?h (bucket ctx) (primaryObject ctx) (probeObjects ctx) [?p]
                   (Some res) (object ?c')"
        unfolding po cc chainOK_def using Some e(1) by simp
      show ?thesis
        unfolding e(2) using frc cc(1) ok' by blast
    next
      case fb: True
      have "getMetadata ctx = fallbackChain ?c' res0"
        unfolding gm0 by (rule if_P [OF fb])
      with assms have gm: "fallbackChain ?c' res0 = (res, ctx')" by simp
      obtain ro1 ctx1 where g: "probeEach ?c' (rewriteCandidates ?c') = (ro1, ctx1)"
        by (cases "probeEach ?c' (rewriteCandidates ?c')")
      have e: "ctx' = ctx1" "ro1 = None \<or> ro1 = Some res"
        using gm g unfolding fallbackChain_probeEach by (cases ro1; simp)+
      have rc: "rewriteCandidates ?c' = rewriteCandidates ?c"
        by (simp add: rewriteCandidates_def)
      from probeEach_chain [OF g] obtain new where
        fr: "frame ?c' ctx1" and n: "calls (gcs ctx1) = calls (gcs ?c') @ new"
        and ok: "chainOK (transport (gcs ?c')) (calls (gcs ?c')) (bucket ?c') (object ?c')
                   (rewriteCandidates ?c') new ro1 (object ctx1)"
        by (elim conjE exE)
      have ok1: "chainOK ?t (?h @ [?p]) (bucket ctx) (object ?c) (rewriteCandidates ?c)
                   new ro1 (object ctx')"
        using ok e(1) rc by simp
      have ok': "chainOK ?t ?h (bucket ctx) (primaryObject ctx) (probeObjects ctx)
                   (?p # new) ro1 (object ctx')"
        unfolding po using ok1 Some by (rule chainOK_miss)
      have fr': "frame ctx ctx'" using fr e(1) by (simp add: frame_def)
      have n': "calls (gcs ctx') = ?h @ (?p # new)" using n e(1) by simp
      show ?thesis
        by (intro conjI exI [of _ "?p # new"] exI [of _ ro1]) (rule fr' n' ok' e(2))+
    qed
  qed
qed

lemma length_probeObjects: "length (probeObjects ctx) \<le> 4"
  by (simp add: probeObjects_def rewriteCandidates_def Let_def)

lemmas ex_defs = exampleContext_def makeContext_def exampleRuntime_def exampleWebsites_def
  exampleFirebases_def exampleFirebase_def
  emptyWriter_def exampleRequest_def exampleOrigin_def okResponse_def zeroWebsite_def

lemmas res_defs = getMetadata_def collapseObject_def shortCircuit_def stripObject_def fallbackChain_def
  getRewriteMetadata_def Client_Head_def statusResponse_def storage_def TrimRight_def HasSuffix_def Header_Get_def Header_index_def

text \<open>
  C2: the calls \<open>getMetadata\<close> makes go, in order, to some of the objects of
  \<open>probeObjects\<close>: the primary object, the main-page candidate, the \<open>.html\<close>
  candidate when \<open>CleanUrls\<close> is set and the \<open>processRewrites\<close> candidate (only the
  last one on the short-circuit path). All of them are \<open>HEAD\<close> calls and there are at most
  four. \<open>getMetadata\<close> and \<open>getRewriteMetadata\<close> are not recursive.
\<close>

theorem C2_at_most_four_heads:
  "\<exists>new. calls (gcs (snd (getMetadata ctx))) = calls (gcs ctx) @ new
      \<and> subseq new (map (\<lambda>obj. HEAD (storage @ bucket ctx @ obj)) (probeObjects ctx))
      \<and> length new \<le> 4"
proof -
  obtain res ctx' where g: "getMetadata ctx = (res, ctx')"
    by (cases "getMetadata ctx")
  from getMetadata_chain [OF g] obtain new ro where
    n: "calls (gcs ctx') = calls (gcs ctx) @ new"
    and ok: "chainOK (transport (gcs ctx)) (calls (gcs ctx)) (bucket ctx) (primaryObject ctx)
               (probeObjects ctx) new ro (object ctx')"
    by (elim conjE exE)
  have sub: "subseq new (map (\<lambda>obj. HEAD (storage @ bucket ctx @ obj)) (probeObjects ctx))"
    using ok unfolding chainOK_def by (elim conjE)
  have "length new \<le> length (map (\<lambda>obj. HEAD (storage @ bucket ctx @ obj)) (probeObjects ctx))"
    using sub by (rule list_emb_length)
  then have len: "length new \<le> 4"
    using length_probeObjects [of ctx] by simp
  show ?thesis
    unfolding g snd_conv by (intro exI [of _ new] conjI) (rule n sub len)+
qed

theorem C2_at_most_four_heads_witness:
  "calls (gcs (snd (getMetadata (exampleContext True None ''index.html'' ''/missing''))))
     = [HEAD ''https://storage.googleapis.com/example.com/missing'',
        HEAD ''https://storage.googleapis.com/example.com/missing/index.html'',
        HEAD ''https://storage.googleapis.com/example.com/missing.html'']
   \<and> probeObjects (exampleContext True None ''index.html'' ''/missing'')
     = [''/missing'', ''/missing/index.html'', ''/missing.html'', []]"
proof -
  let ?ctx = "exampleContext True None ''index.html'' ''/missing''"
  have c: "calls (gcs (snd (getMetadata ?ctx)))
     = [HEAD ''https://storage.googleapis.com/example.com/missing'',
        HEAD ''https://storage.googleapis.com/example.com/missing/index.html'',
        HEAD ''https://storage.googleapis.com/example.com/missing.html'']"
    by (simp add: ex_defs res_defs Let_def)
  have p: "probeObjects ?ctx = [''/missing'', ''/missing/index.html'', ''/missing.html'', []]"
    by (simp add: ex_defs probeObjects_def rewriteCandidates_def collapseObject_def
        shortCircuit_def stripObject_def TrimRight_def Let_def)
  from C2_at_most_four_heads [of ?ctx] obtain new where
    "calls (gcs (snd (getMetadata ?ctx))) = calls (gcs ?ctx) @ new" "length new \<le> 4"
    by (elim exE conjE)
  then show ?thesis using c p by simp
qed

text \<open>
  C10: in a run of \<open>getMetadata\<close>, only the last call made can have met a transport
  error, so no candidate is tried after an error; when the last call met one, the
  resolver returns the bare 500 response and the working object is the one it started to
  probe with (\<open>primaryObject\<close>); the working object differs from that one only when it
  is the object of the last call and the origin answered that call with a response other
  than 404, which is the response returned.
\<close>

theorem C10_transport_error_stops:
  assumes "getMetadata ctx = (res, ctx')"
  shows "\<exists>new. calls (gcs ctx') = calls (gcs ctx) @ new
      \<and> None \<notin> set (butlast (answers (transport (gcs ctx)) (calls (gcs ctx)) new))
      \<and> (new \<noteq> [] \<and> last (answers (transport (gcs ctx)) (calls (gcs ctx)) new) = None \<longrightarrow>
           res = statusResponse StatusInternalServerError \<and> object ctx' = primaryObject ctx)
      \<and> (object ctx' \<noteq> primaryObject ctx \<longrightarrow>
           new \<noteq> [] \<and> last new = HEAD (storage @ bucket ctx @ object ctx')
           \<and> last (answers (transport (gcs ctx)) (calls (gcs ctx)) new) = Some res
           \<and> StatusCode res \<noteq> StatusNotFound)"
proof -
  from getMetadata_chain [OF assms] obtain new ro where
    n: "calls (gcs ctx') = calls (gcs ctx) @ new"
    and ok: "chainOK (transport (gcs ctx)) (calls (gcs ctx)) (bucket ctx) (primaryObject ctx)
               (probeObjects ctx) new ro (object ctx')"
    and ro: "ro = None \<or> ro = Some res"
    by (elim conjE exE)
  let ?A = "answers (transport (gcs ctx)) (calls (gcs ctx)) new"
  have 1: "None \<notin> set (butlast ?A)"
    using ok unfolding chainOK_def by (elim conjE)
  have k3: "new \<noteq> [] \<and> last ?A = None \<longrightarrow>
           ro = Some (statusResponse StatusInternalServerError) \<and> object ctx' = primaryObject ctx"
    using ok unfolding chainOK_def by (elim conjE)
  have k4: "object ctx' \<noteq> primaryObject ctx \<longrightarrow>
           new \<noteq> [] \<and> last new = HEAD (storage @ bucket ctx @ object ctx')
           \<and> (\<exists>res. ro = Some res \<and> last ?A = Some res \<and> StatusCode res \<noteq> StatusNotFound)"
    using ok unfolding chainOK_def by (elim conjE)
  have 2: "new \<noteq> [] \<and> last ?A = None \<longrightarrow>
           res = statusResponse StatusInternalServerError \<and> object ctx' = primaryObject ctx"
    using k3 ro by auto
  have 3: "object ctx' \<noteq> primaryObject ctx \<longrightarrow>
           new \<noteq> [] \<and> last new = HEAD (storage @ bucket ctx @ object ctx')
           \<and> last ?A = Some res \<and> StatusCode res \<noteq> StatusNotFound"
    using k4 ro by auto
  show ?thesis
    by (intro exI [of _ new] conjI) (rule n 1 2 3)+
qed

theorem C10_transport_error_stops_witness:
  "fst (getMetadata (exampleContext True None ''index.html'' ''/broken''))
     = statusResponse StatusInternalServerError
   \<and> object (snd (getMetadata (exampleContext True None ''index.html'' ''/broken''))) = ''/broken''
   \<and> calls (gcs (snd (getMetadata (exampleContext True None ''index.html'' ''/broken''))))
     = [HEAD ''https://storage.googleapis.com/example.com/broken'',
        HEAD ''https://storage.googleapis.com/example.com/broken/index.html'',
        HEAD ''https://storage.googleapis.com/example.com/broken.html'']
   \<and> answers exampleOrigin []
        [HEAD ''https://storage.googleapis.com/example.com/broken'',
         HEAD ''https://storage.googleapis.com/example.com/broken/index.html'',
         HEAD ''https://storage.googleapis.com/example.com/broken.html'']
     = [Some (statusResponse StatusNotFound), Some (statusResponse StatusNotFound), None]"
proof -
  let ?ctx = "exampleContext True None ''index.html'' ''/broken''"
  let ?cs = "[HEAD ''https://storage.googleapis.com/example.com/broken'',
        HEAD ''https://storage.googleapis.com/example.com/broken/index.html'',
        HEAD ''https://storage.googleapis.com/example.com/broken.html'']"
  have h: "getMetadata ?ctx = (fst (getMetadata ?ctx), snd (getMetadata ?ctx))"
    by simp
  have c: "calls (gcs (snd (getMetadata ?ctx))) = ?cs"
    by (simp add: ex_defs res_defs Let_def)
  have c0: "calls (gcs ?ctx) = []" "transport (gcs ?ctx) = exampleOrigin"
    by (simp_all add: ex_defs Let_def)
  have po: "primaryObject ?ctx = ''/broken''"
    by (simp add: ex_defs primaryObject_def collapseObject_def shortCircuit_def stripObject_def Let_def)
  have a: "answers exampleOrigin [] ?cs
     = [Some (statusResponse StatusNotFound), Some (statusResponse StatusNotFound), None]"
    by (simp add: exampleOrigin_def)
  from C10_transport_error_stops [OF h] obtain new where
    n: "calls (gcs (snd (getMetadata ?ctx))) = calls (gcs ?ctx) @ new"
    and imp: "new \<noteq> [] \<and> last (answers (transport (gcs ?ctx)) (calls (gcs ?ctx)) new) = None \<longrightarrow>
           fst (getMetadata ?ctx) = statusResponse StatusInternalServerError
           \<and> object (snd (getMetadata ?ctx)) = primaryObject ?ctx"
    by (elim exE conjE)
  have new: "new = ?cs" using n c c0(1) by simp
  have "fst (getMetadata ?ctx) = statusResponse StatusInternalServerError
           \<and> object (snd (getMetadata ?ctx)) = ''/broken''"
    using imp unfolding new c0 a po by simp
  then show ?thesis using c a by simp
qed

text \<open>
  C7 fails on the code. The request path \<open>//\<close> with \<open>trailingSlash\<close> set to false: the
  path passes the length test of line 157, is not redirected (the canonical path is
  empty, which \<open>getCleanURL\<close> returns as "no redirect"), and line 167 strips it to the
  empty string, so the primary \<open>HEAD\<close> and the body \<open>GET\<close> go to the bucket URL with an
  empty object path.
\<close>

theorem C7_empty_object_path:
  "workingObject (StaticWebsiteHandler exampleRuntime (exampleWebsites ''index.html'' ''404.html'')
        (exampleFirebases False (Some False)) emptyWriter (exampleRequest ''//'' []))
     = Some []
   \<and> originCalls (StaticWebsiteHandler exampleRuntime (exampleWebsites ''index.html'' ''404.html'')
        (exampleFirebases False (Some False)) emptyWriter (exampleRequest ''//'' []))
     = [HEAD (storage @ ''example.com'' @ []), GET (storage @ ''example.com'' @ [])]"
  by code_simp

text \<open>
  C3 fails on the code. With \<open>mainPageSuffix = home.html\<close>, a request for \<open>/\<close> gets the
  working object \<open>/index.html\<close>, written into \<open>makeContext\<close>, not \<open>/home.html\<close>:
  the collapse of line 157 never sees the path \<open>/\<close>.
\<close>

theorem C3_root_is_index_html:
  "MainPageSuffix (website (makeContext exampleRuntime (exampleWebsites ''home.html'' ''404.html'')
        (exampleFirebases False None) emptyWriter (exampleRequest ''/'' []))) = ''home.html''
   \<and> object (makeContext exampleRuntime (exampleWebsites ''home.html'' ''404.html'')
        (exampleFirebases False None) emptyWriter (exampleRequest ''/'' [])) = ''/index.html''
   \<and> workingObject (StaticWebsiteHandler exampleRuntime (exampleWebsites ''home.html'' ''404.html'')
        (exampleFirebases False None) emptyWriter (exampleRequest ''/'' []))
     = Some ''/index.html''
   \<and> originCalls (StaticWebsiteHandler exampleRuntime (exampleWebsites ''home.html'' ''404.html'')
        (exampleFirebases False None) emptyWriter (exampleRequest ''/'' []))
     = [HEAD (storage @ ''example.com'' @ ''/index.html''),
        GET (storage @ ''example.com'' @ ''/index.html'')]"
  by code_simp

section \<open>Properties of the clean-URL canonicalization\<close>

lemma TrimRight_idem: "TrimRight (TrimRight s cs) cs = TrimRight s cs"
  by (simp add: TrimRight_def)

lemma TrimRight_snoc: "c \<in> set cs \<Longrightarrow> TrimRight (s @ [c]) cs = TrimRight s cs"
  by (simp add: TrimRight_def)

lemma TrimSuffix_other_end:
  assumes "suf = [] \<or> last suf \<noteq> c"
  shows "TrimSuffix (s @ [c]) suf = s @ [c]"
proof (cases suf rule: rev_cases)
  case Nil
  then show ?thesis by (simp add: TrimSuffix_def)
next
  case (snoc ys y)
  then have "y \<noteq> c" using assms by simp
  then show ?thesis using snoc by (simp add: TrimSuffix_def HasSuffix_def)
qed

lemma not_HasSuffix_slash: "\<not> HasSuffix suf ''/'' \<longleftrightarrow> suf = [] \<or> last suf \<noteq> CHR ''/''"
  by (cases suf rule: rev_cases) (auto simp: HasSuffix_def)

lemma withPath_simps [simp]:
  "Path (URL (r (withPath ctx p))) = p" "firebase (withPath ctx p) = firebase ctx"
  "website (withPath ctx p) = website ctx"
  by (simp_all add: withPath_def)

text \<open>
  C4, as stated, fails: with \<open>cleanUrls\<close> set and \<open>trailingSlash\<close> unset, the path
  \<open>/a.html.html\<close> is redirected to \<open>/a.html\<close>, and a request for \<open>/a.html\<close> is
  redirected again, to \<open>/a\<close>.
\<close>

theorem C4_counterexample:
  "canonicalPath (exampleContext True None ''index.html'' ''/a.html.html'') = ''/a.html''
   \<and> getCleanURL (exampleContext True None ''index.html'' ''/a.html.html'') = ''/a.html''
   \<and> getCleanURL (withPath (exampleContext True None ''index.html'' ''/a.html.html'') ''/a.html'')
       = ''/a''"
  by (simp add: ex_defs withPath_def getCleanURL_def canonicalPath_def TrimSuffix_def HasSuffix_def Let_def)

text \<open>
  The canonical form of a canonical path is the path itself when \<open>cleanUrls\<close> is off,
  and when \<open>trailingSlash\<close> forces the slash and the main page suffix does not end
  in one.
\<close>

lemma canonicalPath_twice:
  assumes "\<not> CleanUrls (firebase ctx)
        \<or> TrailingSlash (firebase ctx) = Some True
          \<and> \<not> HasSuffix (MainPageSuffix (website ctx)) ''/''"
  shows "canonicalPath (withPath ctx (canonicalPath ctx)) = canonicalPath ctx"
proof -
  define clean where "clean = CleanUrls (firebase ctx)"
  define mps where "mps = MainPageSuffix (website ctx)"
  define strip where "strip = (\<lambda>p. if clean then TrimSuffix (TrimSuffix p mps) ''.html'' else p)"
  define p0 where "p0 = strip (Path (URL (r ctx)))"
  show ?thesis
  proof (cases "TrailingSlash (firebase ctx)")
    case None
    then have "\<not> CleanUrls (firebase ctx)" using assms by simp
    then show ?thesis using None by (simp add: canonicalPath_def)
  next
    case (Some slash)
    have cp: "canonicalPath c = (if slash then TrimRight (strip (Path (URL (r c)))) ''/'' @ ''/''
                                 else TrimRight (strip (Path (URL (r c)))) ''/'')"
      if "firebase c = firebase ctx" "website c = website ctx" for c
      using that Some by (simp add: canonicalPath_def strip_def clean_def mps_def Let_def)
    show ?thesis
    proof (cases slash)
      case False
      then have nc: "\<not> clean" using assms Some by (simp add: clean_def)
      have "canonicalPath ctx = TrimRight (Path (URL (r ctx))) ''/''"
        using cp [of ctx] False nc by (simp add: strip_def)
      moreover have "canonicalPath (withPath ctx (TrimRight (Path (URL (r ctx))) ''/''))
          = TrimRight (TrimRight (Path (URL (r ctx))) ''/'') ''/''"
        using cp [of "withPath ctx (TrimRight (Path (URL (r ctx))) ''/'')"] False nc
        by (simp add: strip_def)
      ultimately show ?thesis by (simp add: TrimRight_idem)
    next
      case True
      let ?q = "TrimRight p0 ''/''"
      have c1: "canonicalPath ctx = ?q @ ''/''"
        using cp [of ctx] True by (simp add: p0_def)
      have m: "\<not> clean \<or> mps = [] \<or> last mps \<noteq> CHR ''/''"
        using assms Some True not_HasSuffix_slash [of mps] by (auto simp: clean_def mps_def)
      have s1: "strip (?q @ ''/'') = ?q @ ''/''"
      proof (cases clean)
        case False
        then show ?thesis by (simp add: strip_def)
      next
        case True
        then have "mps = [] \<or> last mps \<noteq> CHR ''/''" using m by simp
        then have "TrimSuffix (?q @ [CHR ''/'']) mps = ?q @ [CHR ''/'']"
          by (rule TrimSuffix_other_end)
        moreover have "TrimSuffix (?q @ [CHR ''/'']) ''.html'' = ?q @ [CHR ''/'']"
          by (rule TrimSuffix_other_end) simp
        ultimately show ?thesis using True by (simp add: strip_def)
      qed
      have "canonicalPath (withPath ctx (?q @ ''/'')) = TrimRight (strip (?q @ ''/'')) ''/'' @ ''/''"
        using cp [of "withPath ctx (?q @ ''/'')"] True by simp
      also have "\<dots> = TrimRight (?q @ [CHR ''/'']) ''/'' @ ''/''"
        using s1 by simp
      also have "\<dots> = ?q @ ''/''"
        by (simp add: TrimRight_snoc TrimRight_idem)
      finally show ?thesis using c1 by simp
    qed
  qed
qed

text \<open>
  C4, amended: a path that is already canonical gets no redirect, for every setting; and
  when \<open>cleanUrls\<close> is not set, or \<open>trailingSlash\<close> is force-on and the main page
  suffix does not end in \<open>/\<close>, the canonical form of every path is a fixed point:
  canonicalizing it again changes nothing and emits no redirect.
\<close>

theorem C4_canonical_fixed_point:
  "(canonicalPath ctx = Path (URL (r ctx)) \<longrightarrow> getCleanURL ctx = [])
   \<and> (\<not> CleanUrls (firebase ctx)
        \<or> TrailingSlash (firebase ctx) = Some True
          \<and> \<not> HasSuffix (MainPageSuffix (website ctx)) ''/'' \<longrightarrow>
      canonicalPath (withPath ctx (canonicalPath ctx)) = canonicalPath ctx
      \<and> getCleanURL (withPath ctx (canonicalPath ctx)) = [])"
proof -
  have 1: "canonicalPath ctx = Path (URL (r ctx)) \<longrightarrow> getCleanURL ctx = []"
    by (simp add: getCleanURL_def)
  have 2: "\<not> CleanUrls (firebase ctx)
        \<or> TrailingSlash (firebase ctx) = Some True
          \<and> \<not> HasSuffix (MainPageSuffix (website ctx)) ''/'' \<longrightarrow>
      canonicalPath (withPath ctx (canonicalPath ctx)) = canonicalPath ctx
      \<and> getCleanURL (withPath ctx (canonicalPath ctx)) = []"
    using canonicalPath_twice [of ctx] by (simp add: getCleanURL_def)
  show ?thesis using 1 2 by (rule conjI)
qed

theorem C4_canonical_fixed_point_witness:
  "canonicalPath (exampleContext True (Some True) ''index.html'' ''/about.html'') = ''/about/''
   \<and> getCleanURL (withPath (exampleContext True (Some True) ''index.html'' ''/about.html'')
         ''/about/'') = []
   \<and> getCleanURL (exampleContext False (Some False) ''index.html'' ''/blog'') = []"
proof -
  let ?a = "exampleContext True (Some True) ''index.html'' ''/about.html''"
  let ?b = "exampleContext False (Some False) ''index.html'' ''/blog''"
  have ca: "canonicalPath ?a = ''/about/''"
    by (simp add: ex_defs canonicalPath_def TrimSuffix_def HasSuffix_def TrimRight_def Let_def)
  have ha: "\<not> CleanUrls (firebase ?a)
        \<or> TrailingSlash (firebase ?a) = Some True
          \<and> \<not> HasSuffix (MainPageSuffix (website ?a)) ''/''"
    by (simp add: ex_defs HasSuffix_def Let_def)
  have cb: "canonicalPath ?b = Path (URL (r ?b))"
    by (simp add: ex_defs canonicalPath_def TrimRight_def Let_def)
  show ?thesis
    using C4_canonical_fixed_point [of ?a] C4_canonical_fixed_point [of ?b] ca ha cb
    by simp
qed

section \<open>Properties of the not-found response\<close>

lemma setHeaders_baseline: "setHeaders h = h ++ securityBaseline"
  by (rule ext) (simp add: setHeaders_def Header_Set_def securityBaseline_def map_add_def)

lemma sendNotFound_empty:
  assumes "NotFoundPage (website ctx) = []"
  shows "sendNotFound ctx = (emptyResult\<lparr>Status := StatusNotFound\<rparr>, ctx)"
  using assms by (simp add: sendNotFound_def)

lemma sendNotFound_failed:
  assumes "NotFoundPage (website ctx) \<noteq> []"
    and "transport (gcs ctx) (calls (gcs ctx))
           (GET (storage @ bucket ctx @ ''/'' @ NotFoundPage (website ctx))) = None
         \<or> (\<exists>res. transport (gcs ctx) (calls (gcs ctx))
           (GET (storage @ bucket ctx @ ''/'' @ NotFoundPage (website ctx))) = Some res
              \<and> StatusCode res \<noteq> StatusOK)"
  shows "sendNotFound ctx = (emptyResult\<lparr>Status := StatusInternalServerError\<rparr>,
            logged ctx [GET (storage @ bucket ctx @ ''/'' @ NotFoundPage (website ctx))])"
  using assms by (auto simp: sendNotFound_def Client_Get_def logged_def)

lemma sendNotFound_served:
  assumes "NotFoundPage (website ctx) \<noteq> []"
    and "transport (gcs ctx) (calls (gcs ctx))
           (GET (storage @ bucket ctx @ ''/'' @ NotFoundPage (website ctx))) = Some res"
    and "StatusCode res = StatusOK"
  shows "sendNotFound ctx = (emptyResult,
            (logged ctx [GET (storage @ bucket ctx @ ''/'' @ NotFoundPage (website ctx))])
              \<lparr>w := \<lparr>wHeader = processHeaders (firebase ctx) (''/'' @ NotFoundPage (website ctx))
                                 (notFoundHeaders (wHeader (w ctx)) (Header res)),
                      wStatus = Some StatusNotFound,
                      wBody = wBody (w ctx) @ Body res\<rparr>\<rparr>)"
  using assms
  by (simp add: sendNotFound_def Client_Get_def logged_def setHeaders_baseline notFoundHeaders_def
      assignHeader_def WriteHeader_def io_Copy_def Let_def)


lemma initWebsite_writer:
  assumes "initWebsite rt ws ctx = (err, ctx', ws')"
  shows "w ctx' = w ctx"
  using assms
  by (auto simp: initWebsite_def Client_Get_def split: option.splits if_splits)

lemma getMetadata_writer:
  assumes "getMetadata ctx = (res, ctx')"
  shows "w ctx' = w ctx"
  using getMetadata_chain [OF assms] by (simp add: frame_def)

lemma handler_resolved:
  assumes "Method req = ''GET'' \<or> Method req = ''HEAD''"
    and "fst (getRedirect (makeContext rt ws fbs rw req)) = 0"
    and "initWebsite rt ws (makeContext rt ws fbs rw req) = (None, ctx1, ws1)"
    and "getCleanURL ctx1 = []"
    and "getMetadata ctx1 = (res, ctx2)"
  shows "StaticWebsiteHandler rt ws fbs rw req =
     (if StatusCode res = StatusNotFound
      then (case sendNotFound ctx2 of (hr, ctx) \<Rightarrow> finish hr ctx ws1)
      else if StatusCode res \<noteq> StatusOK
      then finish (emptyResult\<lparr>Status := StatusCode res, Message := ResStatus res\<rparr>) ctx2 ws1
      else (case serveObject rt ctx2 res of (hr, ctx) \<Rightarrow> finish hr ctx ws1))"
proof -
  have cm: "checkMethod rw req = (0, rw)"
    using assms(1) by (auto simp: checkMethod_def)
  obtain code location where gr: "getRedirect (makeContext rt ws fbs rw req) = (code, location)"
    by (cases "getRedirect (makeContext rt ws fbs rw req)")
  then have c0: "code = 0" using assms(2) by simp
  show ?thesis
    unfolding StaticWebsiteHandler_def cm
    by (simp add: gr c0 assms(3,4,5) Let_def)
qed

text \<open>
  C8: take a request that reaches the resolver (method \<open>GET\<close> or \<open>HEAD\<close>, no
  redirect rule, website configuration at hand, path canonical) and for which the
  resolver answers 404. If \<open>notFoundPage\<close> is empty, the handler returns status 404,
  makes no further origin call and leaves the response writer untouched. Otherwise it
  makes one more call, a \<open>GET\<close> for \<open>/\<close> followed by \<open>notFoundPage\<close>; on a
  transport error or a status other than 200 it returns 500 and leaves the writer
  untouched; on a 200 it returns the empty result after writing status 404, the body of
  the page, and the headers: \<open>Content-Type\<close>, \<open>Content-Language\<close> and
  \<open>Content-Disposition\<close> of the origin's answer, the security baseline, and on top
  what \<open>processHeaders\<close> does for the not-found path.
\<close>

theorem C8_not_found_response:
  assumes "Method req = ''GET'' \<or> Method req = ''HEAD''"
    and "fst (getRedirect (makeContext rt ws fbs rw req)) = 0"
    and "initWebsite rt ws (makeContext rt ws fbs rw req) = (None, ctx1, ws1)"
    and "getCleanURL ctx1 = []"
    and "getMetadata ctx1 = (res, ctx2)"
    and "StatusCode res = StatusNotFound"
  shows
    "(let out = StaticWebsiteHandler rt ws fbs rw req;
          page = ''/'' @ NotFoundPage (website ctx2);
          c = GET (storage @ bucket ctx2 @ page);
          a = transport (gcs ctx2) (calls (gcs ctx2)) c
      in (NotFoundPage (website ctx2) = [] \<longrightarrow>
            result out = emptyResult\<lparr>Status := StatusNotFound\<rparr> \<and> writer out = rw
            \<and> originCalls out = calls (gcs ctx2))
       \<and> (NotFoundPage (website ctx2) \<noteq> [] \<longrightarrow>
            originCalls out = calls (gcs ctx2) @ [c]
            \<and> (a = None \<or> (\<exists>p. a = Some p \<and> StatusCode p \<noteq> StatusOK) \<longrightarrow>
                 result out = emptyResult\<lparr>Status := StatusInternalServerError\<rparr>
                 \<and> writer out = rw)
            \<and> (\<forall>p. a = Some p \<and> StatusCode p = StatusOK \<longrightarrow>
                 result out = emptyResult
                 \<and> writer out =
                     \<lparr>wHeader = processHeaders (firebase ctx2) page
                                  (notFoundHeaders (wHeader rw) (Header p)),
                      wStatus = Some StatusNotFound,
                      wBody = wBody rw @ Body p\<rparr>)))"
proof -
  let ?out = "StaticWebsiteHandler rt ws fbs rw req"
  let ?page = "''/'' @ NotFoundPage (website ctx2)"
  let ?c = "GET (storage @ bucket ctx2 @ ?page)"
  let ?a = "transport (gcs ctx2) (calls (gcs ctx2)) ?c"
  have out: "?out = (case sendNotFound ctx2 of (hr, ctx) \<Rightarrow> finish hr ctx ws1)"
    using handler_resolved [OF assms(1-5)] assms(6) by simp
  have wr: "w ctx2 = rw"
    using getMetadata_writer [OF assms(5)] initWebsite_writer [OF assms(3)]
    by (simp add: makeContext_def Let_def)
  have 1: "result ?out = emptyResult\<lparr>Status := StatusNotFound\<rparr> \<and> writer ?out = rw
            \<and> originCalls ?out = calls (gcs ctx2)"
    if "NotFoundPage (website ctx2) = []"
    unfolding out sendNotFound_empty [OF that] by (simp add: finish_def originCalls_def wr)
  have 2: "originCalls ?out = calls (gcs ctx2) @ [?c]"
    if ne: "NotFoundPage (website ctx2) \<noteq> []"
  proof (cases "?a = None \<or> (\<exists>p. ?a = Some p \<and> StatusCode p \<noteq> StatusOK)")
    case True
    show ?thesis
      unfolding out sendNotFound_failed [OF ne True]
      by (simp add: finish_def originCalls_def logged_def)
  next
    case False
    then obtain p where p: "?a = Some p" "StatusCode p = StatusOK" by auto
    show ?thesis
      unfolding out sendNotFound_served [OF ne p]
      by (simp add: finish_def originCalls_def logged_def)
  qed
  have 3: "result ?out = emptyResult\<lparr>Status := StatusInternalServerError\<rparr> \<and> writer ?out = rw"
    if ne: "NotFoundPage (website ctx2) \<noteq> []"
      and f: "?a = None \<or> (\<exists>p. ?a = Some p \<and> StatusCode p \<noteq> StatusOK)"
    unfolding out sendNotFound_failed [OF ne f] by (simp add: finish_def logged_def wr)
  have 4: "result ?out = emptyResult
           \<and> writer ?out = \<lparr>wHeader = processHeaders (firebase ctx2) ?page
                                  (notFoundHeaders (wHeader rw) (Header p)),
                      wStatus = Some StatusNotFound,
                      wBody = wBody rw @ Body p\<rparr>"
    if ne: "NotFoundPage (website ctx2) \<noteq> []" and p: "?a = Some p" "StatusCode p = StatusOK" for p
    unfolding out sendNotFound_served [OF ne p] by (simp add: finish_def wr)
  show ?thesis
    unfolding Let_def using 1 2 3 4 by blast
qed


theorem C8_not_found_response_witness:
  "result (StaticWebsiteHandler exampleRuntime (exampleWebsites ''index.html'' ''404.html'')
        (exampleFirebases False None) emptyWriter (exampleRequest ''/missing'' []))
     = emptyResult
   \<and> writer (StaticWebsiteHandler exampleRuntime (exampleWebsites ''index.html'' ''404.html'')
        (exampleFirebases False None) emptyWriter (exampleRequest ''/missing'' []))
     = \<lparr>wHeader = notFoundHeaders Map.empty (Header (okResponse ''not here'')),
        wStatus = Some StatusNotFound, wBody = ''not here''\<rparr>
   \<and> result (StaticWebsiteHandler exampleRuntime (exampleWebsites ''index.html'' [])
        (exampleFirebases False None) emptyWriter (exampleRequest ''/missing'' []))
     = emptyResult\<lparr>Status := StatusNotFound\<rparr>
   \<and> writer (StaticWebsiteHandler exampleRuntime (exampleWebsites ''index.html'' [])
        (exampleFirebases False None) emptyWriter (exampleRequest ''/missing'' []))
     = emptyWriter
   \<and> result (StaticWebsiteHandler exampleRuntime (exampleWebsites ''index.html'' ''nope.html'')
        (exampleFirebases False None) emptyWriter (exampleRequest ''/missing'' []))
     = emptyResult\<lparr>Status := StatusInternalServerError\<rparr>"
proof -
  let ?fbs = "exampleFirebases False None"
  let ?req = "exampleRequest ''/missing'' []"
  have m: "Method ?req = ''GET'' \<or> Method ?req = ''HEAD''"
    by (simp add: exampleRequest_def)
  have facts:
    "fst (getRedirect (makeContext exampleRuntime (exampleWebsites ''index.html'' nfp) ?fbs emptyWriter ?req)) = 0"
    "initWebsite exampleRuntime (exampleWebsites ''index.html'' nfp)
        (makeContext exampleRuntime (exampleWebsites ''index.html'' nfp) ?fbs emptyWriter ?req)
      = (None, makeContext exampleRuntime (exampleWebsites ''index.html'' nfp) ?fbs emptyWriter ?req,
         exampleWebsites ''index.html'' nfp)"
    "getCleanURL (makeContext exampleRuntime (exampleWebsites ''index.html'' nfp) ?fbs emptyWriter ?req) = []"
    "StatusCode (fst (getMetadata
        (makeContext exampleRuntime (exampleWebsites ''index.html'' nfp) ?fbs emptyWriter ?req)))
      = StatusNotFound"
    "NotFoundPage (website (snd (getMetadata
        (makeContext exampleRuntime (exampleWebsites ''index.html'' nfp) ?fbs emptyWriter ?req)))) = nfp"
    "bucket (snd (getMetadata
        (makeContext exampleRuntime (exampleWebsites ''index.html'' nfp) ?fbs emptyWriter ?req))) = ''example.com''"
    "transport (gcs (snd (getMetadata
        (makeContext exampleRuntime (exampleWebsites ''index.html'' nfp) ?fbs emptyWriter ?req)))) = exampleOrigin"
    "processHeaders (firebase (snd (getMetadata
        (makeContext exampleRuntime (exampleWebsites ''index.html'' nfp) ?fbs emptyWriter ?req)))) = (\<lambda>p h. h)"
    if "nfp \<noteq> ''missing''" for nfp
    using that
    by (simp_all add: ex_defs res_defs initWebsite_def getRedirect_def getCleanURL_def
        canonicalPath_def Let_def)
  have a: "exampleOrigin h (GET (storage @ ''example.com'' @ ''/'' @ ''404.html'')) = Some (okResponse ''not here'')"
    "exampleOrigin h (GET (storage @ ''example.com'' @ ''/'' @ ''nope.html'')) = Some (statusResponse StatusNotFound)"
    for h
    by (simp_all add: exampleOrigin_def storage_def)
  have sc: "StatusCode (okResponse ''not here'') = StatusOK"
    "StatusCode (statusResponse StatusNotFound) \<noteq> StatusOK"
    by (simp_all add: okResponse_def statusResponse_def)
  have n1: "''404.html'' \<noteq> ''missing''" and n2: "[] \<noteq> ''missing''" and n3: "''nope.html'' \<noteq> ''missing''"
    by simp_all
  note t1 = C8_not_found_response [OF m facts(1) [OF n1] facts(2) [OF n1] facts(3) [OF n1]
      prod.collapse [symmetric] facts(4) [OF n1], unfolded Let_def facts(5-8) [OF n1]]
  note t2 = C8_not_found_response [OF m facts(1) [OF n2] facts(2) [OF n2] facts(3) [OF n2]
      prod.collapse [symmetric] facts(4) [OF n2], unfolded Let_def facts(5-8) [OF n2]]
  note t3 = C8_not_found_response [OF m facts(1) [OF n3] facts(2) [OF n3] facts(3) [OF n3]
      prod.collapse [symmetric] facts(4) [OF n3], unfolded Let_def facts(5-8) [OF n3]]
  show ?thesis
    using t1 t2 t3 a sc by (simp add: emptyWriter_def okResponse_def)
qed

section \<open>Properties of the redirects' query string\<close>

lemma shouldEscape_separators:
  "shouldEscape CHR ''&''" "shouldEscape CHR '';''" "shouldEscape CHR ''=''"
  "shouldEscape CHR ''%''" "shouldEscape CHR ''+''" "shouldEscape CHR '' ''"
  by (simp_all add: shouldEscape_def)

lemma unreserved_not_separator:
  assumes "\<forall>c\<in>set s. \<not> shouldEscape c"
  shows "CHR ''&'' \<notin> set s" "CHR '';'' \<notin> set s" "CHR ''='' \<notin> set s"
  using assms shouldEscape_separators by blast+

lemma QueryUnescape_unreserved:
  "\<forall>c\<in>set s. \<not> shouldEscape c \<Longrightarrow> QueryUnescape s = Some s"
proof (induction s)
  case Nil
  show ?case by simp
next
  case (Cons c s)
  then have "\<not> shouldEscape c" "QueryUnescape s = Some s" by simp_all
  moreover from this(1) have "c \<noteq> CHR ''%''" "c \<noteq> CHR ''+''"
    using shouldEscape_separators by blast+
  ultimately show ?case by simp
qed

lemma QueryEscape_unreserved:
  "\<forall>c\<in>set s. \<not> shouldEscape c \<Longrightarrow> QueryEscape s = s"
  by (induction s) simp_all

lemma Cut_absent:
  assumes "sep \<notin> set s"
  shows "Cut s sep = (s, [])"
proof -
  have "\<forall>x\<in>set s. x \<noteq> sep" using assms by auto
  then have tw: "takeWhile (\<lambda>c. c \<noteq> sep) s = s"
    and dw: "dropWhile (\<lambda>c. c \<noteq> sep) s = []"
    by (induction s) auto
  show ?thesis unfolding Cut_def tw dw by simp
qed

lemma Cut_first:
  assumes "sep \<notin> set k"
  shows "Cut (k @ sep # v) sep = (k, v)"
proof -
  have a: "\<forall>x\<in>set k. x \<noteq> sep" using assms by auto
  then have tw: "takeWhile (\<lambda>c. c \<noteq> sep) (k @ sep # v) = k"
    by (simp add: takeWhile_tail)
  have dw: "dropWhile (\<lambda>c. c \<noteq> sep) (k @ sep # v) = sep # v"
    using a by (simp add: dropWhile_append2)
  show ?thesis unfolding Cut_def tw dw by simp
qed

lemma parseQuery_single:
  assumes k: "\<forall>c\<in>set k. \<not> shouldEscape c" and v: "\<forall>c\<in>set v. \<not> shouldEscape c"
    and ne: "k \<noteq> []"
  shows "parseQuery [] (k @ ''='' @ v) = [(k, [v])]"
proof -
  let ?q = "k @ CHR ''='' # v"
  have amp: "CHR ''&'' \<notin> set ?q" and semi: "CHR '';'' \<notin> set ?q"
    using unreserved_not_separator [OF k] unreserved_not_separator [OF v] by auto
  have c1: "Cut ?q CHR ''&'' = (?q, [])" using amp by (rule Cut_absent)
  have c2: "Cut ?q CHR ''='' = (k, v)"
    using unreserved_not_separator(3) [OF k] by (rule Cut_first)
  have "parseQuery [] ?q = parseQuery (appendValue [] k v) []"
    by (subst parseQuery.simps)
      (simp add: c1 c2 unreserved_not_separator(2) [OF k] unreserved_not_separator(2) [OF v] ne
        QueryUnescape_unreserved [OF k] QueryUnescape_unreserved [OF v]
        del: parseQuery.simps)
  then show ?thesis by simp
qed

lemma getQuery_single:
  assumes "\<forall>c\<in>set k. \<not> shouldEscape c" "\<forall>c\<in>set v. \<not> shouldEscape c" "k \<noteq> []"
    and "RawQuery (URL (r ctx)) = k @ ''='' @ v"
  shows "getQuery ctx = ''?'' @ RawQuery (URL (r ctx))"
  using assms parseQuery_single [OF assms(1-3)]
  by (simp add: getQuery_def Query_def Encode_def QueryEscape_unreserved del: parseQuery.simps)


lemma initWebsite_request:
  assumes "initWebsite rt ws ctx = (err, ctx', ws')"
  shows "r ctx' = r ctx"
  using assms
  by (auto simp: initWebsite_def Client_Get_def split: option.splits if_splits)

lemma handler_redirect:
  assumes "Method req = ''GET'' \<or> Method req = ''HEAD''"
    and "fst (getRedirect (makeContext rt ws fbs rw req)) \<noteq> 0"
  shows "StaticWebsiteHandler rt ws fbs rw req =
     finish (emptyResult\<lparr>Status := fst (getRedirect (makeContext rt ws fbs rw req)),
               Location := snd (getRedirect (makeContext rt ws fbs rw req))
                             @ getQuery (makeContext rt ws fbs rw req)\<rparr>)
       (makeContext rt ws fbs rw req) ws"
proof -
  have cm: "checkMethod rw req = (0, rw)"
    using assms(1) by (auto simp: checkMethod_def)
  obtain code location where gr: "getRedirect (makeContext rt ws fbs rw req) = (code, location)"
    by (cases "getRedirect (makeContext rt ws fbs rw req)")
  then have c0: "code \<noteq> 0" using assms(2) by simp
  show ?thesis
    unfolding StaticWebsiteHandler_def cm
    by (simp add: gr c0 Let_def)
qed

lemma handler_clean_url:
  assumes "Method req = ''GET'' \<or> Method req = ''HEAD''"
    and "fst (getRedirect (makeContext rt ws fbs rw req)) = 0"
    and "initWebsite rt ws (makeContext rt ws fbs rw req) = (None, ctx1, ws1)"
    and "getCleanURL ctx1 \<noteq> []"
  shows "StaticWebsiteHandler rt ws fbs rw req =
     finish (emptyResult\<lparr>Status := StatusMovedPermanently,
               Location := getCleanURL ctx1 @ getQuery ctx1\<rparr>) ctx1 ws1"
proof -
  have cm: "checkMethod rw req = (0, rw)"
    using assms(1) by (auto simp: checkMethod_def)
  obtain code location where gr: "getRedirect (makeContext rt ws fbs rw req) = (code, location)"
    by (cases "getRedirect (makeContext rt ws fbs rw req)")
  then have c0: "code = 0" using assms(2) by simp
  show ?thesis
    unfolding StaticWebsiteHandler_def cm
    by (simp add: gr c0 assms(3,4) Let_def)
qed

text \<open>
  C9, amended: for a \<open>GET\<close> or \<open>HEAD\<close> request answered with a redirect, by
  \<open>processRedirects\<close> or by the clean-URL step, \<open>Location\<close> is the redirect target
  followed by \<open>getQuery\<close>: nothing when the parsed query has no parameter, which
  includes the request without a query string, and otherwise \<open>?\<close> followed by the
  query encoded again from its parsed form. The query string comes back unchanged
  when it is one \<open>key=value\<close> pair of characters that need no escape, with a
  non-empty key.
\<close>

theorem C9_redirect_query:
  assumes "Method req = ''GET'' \<or> Method req = ''HEAD''"
  shows
    "(let ctx = makeContext rt ws fbs rw req;
          out = StaticWebsiteHandler rt ws fbs rw req
      in (fst (getRedirect ctx) \<noteq> 0 \<longrightarrow>
            result out = emptyResult\<lparr>Status := fst (getRedirect ctx),
                           Location := snd (getRedirect ctx) @ getQuery ctx\<rparr>)
       \<and> (\<forall>ctx1 ws1. fst (getRedirect ctx) = 0 \<and> initWebsite rt ws ctx = (None, ctx1, ws1)
              \<and> getCleanURL ctx1 \<noteq> [] \<longrightarrow>
            result out = emptyResult\<lparr>Status := StatusMovedPermanently,
                           Location := getCleanURL ctx1 @ getQuery ctx\<rparr>)
       \<and> getQuery ctx = (if Query (URL req) = [] then [] else ''?'' @ Encode (Query (URL req)))
       \<and> (RawQuery (URL req) = [] \<longrightarrow> getQuery ctx = [])
       \<and> (\<forall>k v. k \<noteq> [] \<and> (\<forall>c\<in>set k. \<not> shouldEscape c) \<and> (\<forall>c\<in>set v. \<not> shouldEscape c)
              \<and> RawQuery (URL req) = k @ ''='' @ v \<longrightarrow>
            getQuery ctx = ''?'' @ RawQuery (URL req)))"
proof -
  let ?ctx = "makeContext rt ws fbs rw req"
  let ?out = "StaticWebsiteHandler rt ws fbs rw req"
  have rq: "r ?ctx = req" by (simp add: makeContext_def Let_def)
  have 1: "result ?out = emptyResult\<lparr>Status := fst (getRedirect ?ctx),
                           Location := snd (getRedirect ?ctx) @ getQuery ?ctx\<rparr>"
    if "fst (getRedirect ?ctx) \<noteq> 0"
    unfolding handler_redirect [OF assms that] by (simp add: finish_def)
  have 2: "result ?out = emptyResult\<lparr>Status := StatusMovedPermanently,
                           Location := getCleanURL ctx1 @ getQuery ?ctx\<rparr>"
    if "fst (getRedirect ?ctx) = 0" "initWebsite rt ws ?ctx = (None, ctx1, ws1)"
      "getCleanURL ctx1 \<noteq> []" for ctx1 ws1
  proof -
    have "getQuery ctx1 = getQuery ?ctx"
      using initWebsite_request [OF that(2)] by (simp add: getQuery_def)
    then show ?thesis
      unfolding handler_clean_url [OF assms that] by (simp add: finish_def)
  qed
  have 3: "getQuery ?ctx = (if Query (URL req) = [] then [] else ''?'' @ Encode (Query (URL req)))"
    by (simp add: getQuery_def rq Let_def)
  have 4: "getQuery ?ctx = []" if "RawQuery (URL req) = []"
    using that by (simp add: getQuery_def rq Query_def)
  have 5: "getQuery ?ctx = ''?'' @ RawQuery (URL req)"
    if "k \<noteq> []" "\<forall>c\<in>set k. \<not> shouldEscape c" "\<forall>c\<in>set v. \<not> shouldEscape c"
      "RawQuery (URL req) = k @ ''='' @ v" for k v
    using getQuery_single [OF that(2,3,1), of ?ctx] that(4) rq by simp
  show ?thesis
    unfolding Let_def using 1 2 3 4 5 by blast
qed


text \<open>
  C9, as stated, fails: the query string is not kept as it was sent. \<open>b=1&a=2\<close>
  comes back as \<open>a=2&b=1\<close>, after a rule redirect and after a clean-URL redirect
  alike, and \<open>a\<close> comes back as \<open>a=\<close>.
\<close>

theorem C9_counterexample:
  "RawQuery (URL (exampleRequest ''/old'' ''b=1&a=2'')) = ''b=1&a=2''
   \<and> result (StaticWebsiteHandler exampleRuntime (exampleWebsites ''index.html'' ''404.html'')
        (exampleFirebases False None) emptyWriter (exampleRequest ''/old'' ''b=1&a=2''))
     = \<lparr>Status = StatusMovedPermanently, Location = ''/new?a=2&b=1'', Message = []\<rparr>
   \<and> result (StaticWebsiteHandler exampleRuntime (exampleWebsites ''index.html'' ''404.html'')
        (exampleFirebases False (Some True)) emptyWriter (exampleRequest ''/blog'' ''b=1&a=2''))
     = \<lparr>Status = StatusMovedPermanently, Location = ''/blog/?a=2&b=1'', Message = []\<rparr>
   \<and> result (StaticWebsiteHandler exampleRuntime (exampleWebsites ''index.html'' ''404.html'')
        (exampleFirebases False None) emptyWriter (exampleRequest ''/old'' ''a''))
     = \<lparr>Status = StatusMovedPermanently, Location = ''/new?a='', Message = []\<rparr>"
  by code_simp

theorem C9_redirect_query_witness:
  "result (StaticWebsiteHandler exampleRuntime (exampleWebsites ''index.html'' ''404.html'')
        (exampleFirebases False None) emptyWriter (exampleRequest ''/old'' ''page=2''))
     = \<lparr>Status = StatusMovedPermanently, Location = ''/new?page=2'', Message = []\<rparr>
   \<and> result (StaticWebsiteHandler exampleRuntime (exampleWebsites ''index.html'' ''404.html'')
        (exampleFirebases False (Some True)) emptyWriter (exampleRequest ''/blog'' []))
     = \<lparr>Status = StatusMovedPermanently, Location = ''/blog/'', Message = []\<rparr>"
proof -
  let ?ws = "exampleWebsites ''index.html'' ''404.html''"
  let ?r1 = "exampleRequest ''/old'' ''page=2''"
  let ?r2 = "exampleRequest ''/blog'' []"
  let ?c1 = "makeContext exampleRuntime ?ws (exampleFirebases False None) emptyWriter ?r1"
  let ?c2 = "makeContext exampleRuntime ?ws (exampleFirebases False (Some True)) emptyWriter ?r2"
  have m: "Method ?r1 = ''GET'' \<or> Method ?r1 = ''HEAD''" "Method ?r2 = ''GET'' \<or> Method ?r2 = ''HEAD''"
    by (simp_all add: exampleRequest_def)
  have g1: "getRedirect ?c1 = (StatusMovedPermanently, ''/new'')"
    by (simp add: ex_defs getRedirect_def Let_def)
  have q1: "RawQuery (URL ?r1) = ''page'' @ ''='' @ ''2''"
    "''page'' \<noteq> []" "\<forall>c\<in>set ''page''. \<not> shouldEscape c" "\<forall>c\<in>set ''2''. \<not> shouldEscape c"
    by (simp_all add: exampleRequest_def shouldEscape_def)
  have g2: "fst (getRedirect ?c2) = 0"
    "initWebsite exampleRuntime ?ws ?c2 = (None, ?c2, ?ws)"
    "getCleanURL ?c2 = ''/blog/''"
    by (simp_all add: ex_defs initWebsite_def getRedirect_def getCleanURL_def canonicalPath_def
        TrimRight_def Let_def)
  have q2: "RawQuery (URL ?r2) = []"
    by (simp add: exampleRequest_def)
  note t1 = C9_redirect_query [OF m(1), of exampleRuntime ?ws "exampleFirebases False None" emptyWriter,
      unfolded Let_def]
  note t2 = C9_redirect_query [OF m(2), of exampleRuntime ?ws "exampleFirebases False (Some True)" emptyWriter,
      unfolded Let_def]
  have "\<forall>k v. k \<noteq> [] \<and> (\<forall>c\<in>set k. \<not> shouldEscape c) \<and> (\<forall>c\<in>set v. \<not> shouldEscape c)
              \<and> RawQuery (URL ?r1) = k @ ''='' @ v \<longrightarrow>
            getQuery ?c1 = ''?'' @ RawQuery (URL ?r1)"
    using t1 by (elim conjE)
  from this [rule_format, of "''page''" "''2''"] have a: "getQuery ?c1 = ''?page=2''"
    using q1 by simp
  have "RawQuery (URL ?r2) = [] \<longrightarrow> getQuery ?c2 = []"
    using t2 by (elim conjE)
  then have b: "getQuery ?c2 = []"
    using q2 by simp
  have "result (StaticWebsiteHandler exampleRuntime ?ws (exampleFirebases False None) emptyWriter ?r1)
     = emptyResult\<lparr>Status := StatusMovedPermanently, Location := ''/new'' @ ''?page=2''\<rparr>"
    using t1 g1 a by (elim conjE) simp
  moreover have "result (StaticWebsiteHandler exampleRuntime ?ws (exampleFirebases False (Some True)) emptyWriter ?r2)
     = emptyResult\<lparr>Status := StatusMovedPermanently, Location := ''/blog/'' @ []\<rparr>"
    using t2 g2 b by (elim conjE) simp
  ultimately show ?thesis by (simp add: emptyResult_def)
qed

end
